theory Spec2Isabelle
  imports
    Main
    "HOL-Library.Char_ord"
    "HOL-Library.Multiset"
    "HOL-Library.List_Lexorder"
    "HOL-Library.Option_ord"
    "HOL-Library.Product_Lexorder"
begin

section \<open>Values shared by the two source files\<close>

text \<open>
  The development embeds \<^verbatim>\<open>src/core/database.py\<close> (class \<^verbatim>\<open>IPTVDatabase\<close>) and
  \<^verbatim>\<open>src/core/server.py\<close> (class \<^verbatim>\<open>XtreamCodesServer\<close>).  Both keep their state in
  SQLite tables; a table is the list of its rows in rowid order, a nullable column is an
  \<open>option\<close>, and Python's \<^verbatim>\<open>None\<close> bound to a query parameter is \<open>None\<close>.

  Text is compared by SQLite with the BINARY collation, that is bytewise; \<open>string\<close> is a
  list of bytes and its order (from the list and character orders imported above) is the
  lexicographic order on bytes.

  What the code reads from its environment is a parameter of the model: the digest
  function (\<^verbatim>\<open>hashlib.sha256(..).hexdigest()\<close> in database.py,
  \<^verbatim>\<open>hashlib.md5(..).hexdigest()\<close> in server.py) is the parameter \<open>H\<close>, and the values
  of \<^verbatim>\<open>CURRENT_TIMESTAMP\<close> and of \<^verbatim>\<open>datetime.now()\<close> are arguments of the
  operation that reads them.
\<close>

datatype error = IntegrityError | TypeError | AttributeError | IndexError

text \<open>
  How a method call ends: it returns a value, it raises, or it never returns.  The last
  case is real in database.py: \<^verbatim>\<open>self.lock\<close> is a \<^verbatim>\<open>threading.Lock()\<close>, which is not
  reentrant, and several methods call \<^verbatim>\<open>self.log_action\<close> (which takes the lock itself)
  from inside their own \<^verbatim>\<open>with self.lock:\<close> block.
\<close>

datatype 'a outcome = Returned 'a | Raised error | Blocked

text \<open>SQL comparison \<^verbatim>\<open>column = ?\<close>: it is never true when either side is NULL.\<close>

fun sql_eq :: "'a option \<Rightarrow> 'a option \<Rightarrow> bool" where
  "sql_eq (Some a) (Some b) = (a = b)"
| "sql_eq _ _ = False"

text \<open>
  The rowid SQLite gives to an inserted row of an \<^verbatim>\<open>INTEGER PRIMARY KEY AUTOINCREMENT\<close>
  table: one more than the largest rowid the table holds or has ever held (the latter is
  the table's entry in \<^verbatim>\<open>sqlite_sequence\<close>).
\<close>

definition next_rowid :: "int \<Rightarrow> int list \<Rightarrow> int" where
  "next_rowid seq ids = fold max ids seq + 1"

text \<open>Python's \<^verbatim>\<open>f"{x}"\<close> for an integer and for a value that may be \<^verbatim>\<open>None\<close>.\<close>

definition digit_char :: "nat \<Rightarrow> char" where
  "digit_char d = char_of (of_char (CHR ''0'') + d)"

fun str_nat :: "nat \<Rightarrow> string" where
  "str_nat n = (if n < 10 then [digit_char n] else str_nat (n div 10) @ [digit_char (n mod 10)])"

definition str_int :: "int \<Rightarrow> string" where
  "str_int i = (if i < 0 then CHR ''-'' # str_nat (nat (- i)) else str_nat (nat i))"

definition str_opt :: "string option \<Rightarrow> string" where
  "str_opt v = (case v of None \<Rightarrow> ''None'' | Some s \<Rightarrow> s)"

section \<open>The tables of database.py\<close>

text \<open>
  Rows carry the columns that the embedded methods read or write; columns that none of
  them touches (\<^verbatim>\<open>credits\<close>, \<^verbatim>\<open>settings\<close>, \<^verbatim>\<open>bitrate\<close>, \<^verbatim>\<open>average_bitrate\<close>, ...) are
  left out.  Foreign keys are not enforced by the methods below: \<^verbatim>\<open>PRAGMA foreign_keys\<close>
  is per connection and only \<^verbatim>\<open>init_database\<close> sets it.
\<close>

record user_row =
  u_id :: int
  u_username :: string
  u_password :: string
  u_email :: "string option"
  u_role :: "string option"
  u_is_active :: "int option"
  u_max_connections :: "int option"
  u_created_at :: "string option"
  u_expires_at :: "string option"
  u_last_login :: "string option"
  u_total_streams :: "int option"
  u_api_key :: "string option"

record session_row =
  s_session_id :: string
  s_user_id :: int
  s_stream_id :: "int option"
  s_client_ip :: "string option"
  s_user_agent :: "string option"
  s_start_time :: string
  s_last_active :: string
  s_is_active :: int
  s_bytes_sent :: int

record stat_row =
  stat_id :: int
  stat_date :: string
  st_user_id :: "int option"
  st_stream_id :: "int option"
  total_views :: int
  total_bytes :: int
  peak_viewers :: int

record stream_row =
  ls_stream_id :: int
  stream_name :: string
  stream_url :: string
  ls_category_id :: "int option"
  ls_category_name :: "string option"
  stream_icon :: "string option"
  epg_channel_id :: "string option"
  ls_is_active :: "int option"
  ls_user_id :: "int option"
  proxy_url :: "string option"

record category_row =
  c_category_id :: int
  c_category_name :: string

record log_row =
  log_id :: int
  log_date :: string
  log_level :: string
  l_user_id :: "int option"
  l_action :: string
  l_details :: string

record database =
  users :: "user_row list"
  users_seq :: int
  active_sessions :: "session_row list"
  statistics :: "stat_row list"
  statistics_seq :: int
  live_streams :: "stream_row list"
  categories :: "category_row list"
  logs :: "log_row list"
  logs_seq :: int

definition empty_database :: database where
  "empty_database =
     \<lparr>users = [], users_seq = 0, active_sessions = [], statistics = [], statistics_seq = 0,
      live_streams = [], categories = [], logs = [], logs_seq = 0\<rparr>"

section \<open>Statistics: \<^verbatim>\<open>IPTVDatabase.add_statistic\<close>\<close>

text \<open>
  \<^verbatim>\<open>SELECT stat_id FROM statistics WHERE stat_date = ? AND user_id = ? AND stream_id = ?\<close>
  with the parameters \<^verbatim>\<open>(today, user_id, stream_id)\<close>.
\<close>

definition stat_matches :: "string \<Rightarrow> int option \<Rightarrow> int option \<Rightarrow> stat_row \<Rightarrow> bool" where
  "stat_matches today user_id stream_id r \<longleftrightarrow>
     stat_date r = today \<and> sql_eq (st_user_id r) user_id \<and> sql_eq (st_stream_id r) stream_id"

text \<open>
  The \<^verbatim>\<open>UPDATE .. WHERE stat_id = ?\<close> branch: views and bytes are added, the peak is
  replaced only by a larger value.
\<close>

definition update_stat :: "int \<Rightarrow> int \<Rightarrow> int \<Rightarrow> stat_row \<Rightarrow> stat_row" where
  "update_stat sid bytes_sent viewers r =
     (if stat_id r = sid
      then r\<lparr>total_views := total_views r + viewers,
             total_bytes := total_bytes r + bytes_sent,
             peak_viewers := (if viewers > peak_viewers r then viewers else peak_viewers r)\<rparr>
      else r)"

text \<open>
  \<open>today\<close> is \<^verbatim>\<open>datetime.now().strftime('%Y-%m-%d')\<close>.  The method does not call
  \<^verbatim>\<open>log_action\<close>; it returns \<^verbatim>\<open>None\<close> and its effect is the new table.  Counters are
  Python integers; SQLite's 64-bit range is not modelled.
\<close>

definition add_statistic ::
  "database \<Rightarrow> string \<Rightarrow> int option \<Rightarrow> int option \<Rightarrow> int \<Rightarrow> int \<Rightarrow> database" where
  "add_statistic db today user_id stream_id bytes_sent viewers =
     (case find (stat_matches today user_id stream_id) (statistics db) of
        Some existing \<Rightarrow>
          db\<lparr>statistics := map (update_stat (stat_id existing) bytes_sent viewers) (statistics db)\<rparr>
      | None \<Rightarrow>
          (let new_id = next_rowid (statistics_seq db) (map stat_id (statistics db))
           in db\<lparr>statistics := statistics db @
                    [\<lparr>stat_id = new_id, stat_date = today, st_user_id = user_id,
                      st_stream_id = stream_id, total_views = viewers,
                      total_bytes = bytes_sent, peak_viewers = viewers\<rparr>],
                  statistics_seq := new_id\<rparr>))"

text \<open>The rows of one (date, subscriber, stream) key, where an absent id is a key value too.\<close>

definition stat_key_rows :: "database \<Rightarrow> string \<Rightarrow> int option \<Rightarrow> int option \<Rightarrow> stat_row list" where
  "stat_key_rows db d user_id stream_id =
     filter (\<lambda>r. stat_date r = d \<and> st_user_id r = user_id \<and> st_stream_id r = stream_id)
       (statistics db)"

section \<open>The audit log: \<^verbatim>\<open>IPTVDatabase.log_action\<close>\<close>

text \<open>
  \<^verbatim>\<open>log_action\<close> starts with \<^verbatim>\<open>with self.lock:\<close>.  Its first argument here says whether
  the lock is held at the moment of the call.  When it is, the call can never acquire it
  (\<^verbatim>\<open>threading.Lock\<close> has no owner and is not reentrant) and never returns; the row is
  not written.  Otherwise it appends the row (\<^verbatim>\<open>log_date\<close> and \<^verbatim>\<open>log_level\<close> take their
  column defaults) and returns.
\<close>

definition log_action ::
  "bool \<Rightarrow> database \<Rightarrow> string \<Rightarrow> int option \<Rightarrow> string \<Rightarrow> string \<Rightarrow> database \<times> unit outcome" where
  "log_action lock_held db now user_id action details =
     (if lock_held then (db, Blocked)
      else
        (let new_id = next_rowid (logs_seq db) (map log_id (logs db))
         in (db\<lparr>logs := logs db @
                   [\<lparr>log_id = new_id, log_date = now, log_level = ''info'',
                     l_user_id = user_id, l_action = action, l_details = details\<rparr>],
                 logs_seq := new_id\<rparr>,
             Returned ())))"

text \<open>
  A method body that ends with \<^verbatim>\<open>self.log_action(..); return v\<close>: the value is returned
  only if the call of \<^verbatim>\<open>log_action\<close> returns.
\<close>

fun then_return :: "database \<times> unit outcome \<Rightarrow> 'a \<Rightarrow> database \<times> 'a outcome" where
  "then_return (db, Returned _) v = (db, Returned v)"
| "then_return (db, Raised e) v = (db, Raised e)"
| "then_return (db, Blocked) v = (db, Blocked)"

section \<open>Sessions\<close>

text \<open>
  Every method below is the transition of a call that has entered its
  \<^verbatim>\<open>with self.lock:\<close> block.  Statements are committed before \<^verbatim>\<open>log_action\<close> is
  called, so the first component is the table contents that any later connection sees,
  whether or not the call returns.

  \<^verbatim>\<open>create_session\<close>: \<open>dt_now\<close> is \<^verbatim>\<open>str(datetime.now())\<close>, \<open>ts\<close> is
  \<^verbatim>\<open>CURRENT_TIMESTAMP\<close>.  \<^verbatim>\<open>session_id\<close> is the primary key, so the INSERT raises
  \<^verbatim>\<open>sqlite3.IntegrityError\<close> when the id is taken; nothing is committed then.  There is
  no comparison with \<^verbatim>\<open>max_connections\<close> in this method.
\<close>

definition create_session ::
  "(string \<Rightarrow> string) \<Rightarrow> database \<Rightarrow> string \<Rightarrow> string \<Rightarrow> int \<Rightarrow> int option \<Rightarrow>
   string option \<Rightarrow> string option \<Rightarrow> database \<times> string outcome" where
  "create_session H db dt_now ts user_id stream_id client_ip user_agent =
     (let sid = take 32 (H (str_int user_id @ dt_now @ str_opt client_ip))
      in if sid \<in> set (map s_session_id (active_sessions db))
         then (db, Raised IntegrityError)
         else then_return
                (log_action True
                   (db\<lparr>active_sessions := active_sessions db @
                         [\<lparr>s_session_id = sid, s_user_id = user_id, s_stream_id = stream_id,
                           s_client_ip = client_ip, s_user_agent = user_agent,
                           s_start_time = ts, s_last_active = ts, s_is_active = 1,
                           s_bytes_sent = 0\<rparr>]\<rparr>)
                   ts (Some user_id) ''session_created'' ''New session created'')
                sid)"

text \<open>
  \<^verbatim>\<open>UPDATE active_sessions SET last_active = CURRENT_TIMESTAMP, bytes_sent = bytes_sent + ?
  WHERE session_id = ? AND is_active = 1\<close>
\<close>

definition update_session :: "database \<Rightarrow> string \<Rightarrow> string \<Rightarrow> int \<Rightarrow> database \<times> unit outcome" where
  "update_session db ts sid bytes_sent =
     (db\<lparr>active_sessions :=
           map (\<lambda>r. if s_session_id r = sid \<and> s_is_active r = 1
                    then r\<lparr>s_last_active := ts, s_bytes_sent := s_bytes_sent r + bytes_sent\<rparr>
                    else r)
             (active_sessions db)\<rparr>,
      Returned ())"

text \<open>
  \<^verbatim>\<open>check_user_connections\<close> only reads.  \<^verbatim>\<open>c.fetchone()[0] or 1\<close> raises
  \<^verbatim>\<open>TypeError\<close> when there is no such user and turns a NULL or zero cap into 1.
\<close>

definition active_connections :: "database \<Rightarrow> int \<Rightarrow> int" where
  "active_connections db user_id =
     int (length (filter (\<lambda>r. s_user_id r = user_id \<and> s_is_active r = 1) (active_sessions db)))"

definition check_user_connections :: "database \<Rightarrow> int \<Rightarrow> (int \<times> int) outcome" where
  "check_user_connections db user_id =
     (case find (\<lambda>u. u_id u = user_id) (users db) of
        None \<Rightarrow> Raised TypeError
      | Some u \<Rightarrow>
          Returned (active_connections db user_id,
                    (case u_max_connections u of
                       None \<Rightarrow> 1
                     | Some m \<Rightarrow> if m = 0 then 1 else m)))"

text \<open>
  \<^verbatim>\<open>cleanup_old_data\<close>: \<open>cutoff_date\<close> is
  \<^verbatim>\<open>(datetime.now() - timedelta(days=days)).strftime('%Y-%m-%d %H:%M:%S')\<close>.
\<close>

definition cleanup_old_data ::
  "database \<Rightarrow> string \<Rightarrow> string \<Rightarrow> int \<Rightarrow> database \<times> unit outcome" where
  "cleanup_old_data db ts cutoff_date days =
     then_return
       (log_action True
          (db\<lparr>active_sessions :=
                map (\<lambda>r. if s_last_active r < cutoff_date then r\<lparr>s_is_active := 0\<rparr> else r)
                  (active_sessions db),
              logs := filter (\<lambda>l. \<not> (log_date l < cutoff_date \<and> log_level l \<noteq> ''error''))
                        (logs db)\<rparr>)
          ts None ''cleanup'' (''Cleaned up data older than '' @ str_int days @ '' days''))
       ()"

text \<open>
  The session operations as one step function, to speak about sequences of calls.  Each
  call in a sequence acquires the lock (a call on an \<^verbatim>\<open>IPTVDatabase\<close> object whose lock
  is held blocks before its first statement and changes nothing).
\<close>

datatype core_op =
    CreateSession string string int "int option" "string option" "string option"
  | UpdateSession string string int
  | CheckUserConnections int
  | CleanupOldData string string int

fun core_step :: "(string \<Rightarrow> string) \<Rightarrow> database \<Rightarrow> core_op \<Rightarrow> database" where
  "core_step H db (CreateSession dt_now ts user_id stream_id client_ip user_agent) =
     fst (create_session H db dt_now ts user_id stream_id client_ip user_agent)"
| "core_step H db (UpdateSession ts sid bytes_sent) = fst (update_session db ts sid bytes_sent)"
| "core_step H db (CheckUserConnections user_id) = db"
| "core_step H db (CleanupOldData ts cutoff_date days) =
     fst (cleanup_old_data db ts cutoff_date days)"

fun core_run :: "(string \<Rightarrow> string) \<Rightarrow> database \<Rightarrow> core_op list \<Rightarrow> database" where
  "core_run H db [] = db"
| "core_run H db (op # ops) = core_run H (core_step H db op) ops"

text \<open>
  A sequence in which every \<^verbatim>\<open>create_session\<close> is issued in a state where
  \<^verbatim>\<open>check_user_connections\<close> reports fewer active sessions than the cap.
\<close>

fun under_cap :: "database \<Rightarrow> core_op \<Rightarrow> bool" where
  "under_cap db (CreateSession dt_now ts user_id stream_id client_ip user_agent) =
     (case check_user_connections db user_id of
        Returned (active, cap) \<Rightarrow> active < cap
      | Raised e \<Rightarrow> False
      | Blocked \<Rightarrow> False)"
| "under_cap db _ = True"

fun checked_run :: "(string \<Rightarrow> string) \<Rightarrow> database \<Rightarrow> core_op list \<Rightarrow> bool" where
  "checked_run H db [] = True"
| "checked_run H db (op # ops) = (under_cap db op \<and> checked_run H (core_step H db op) ops)"

definition get_session :: "database \<Rightarrow> string \<Rightarrow> session_row option" where
  "get_session db sid = find (\<lambda>r. s_session_id r = sid) (active_sessions db)"

section \<open>Users: \<^verbatim>\<open>IPTVDatabase.create_user\<close> and \<^verbatim>\<open>IPTVDatabase.authenticate_user\<close>\<close>

text \<open>
  \<^verbatim>\<open>create_user\<close>: \<open>dt_now\<close> is \<^verbatim>\<open>str(datetime.now())\<close> (it enters the API key), \<open>ts\<close>
  is \<^verbatim>\<open>CURRENT_TIMESTAMP\<close>.  \<^verbatim>\<open>username\<close> and \<^verbatim>\<open>api_key\<close> are UNIQUE columns.
\<close>

definition create_user ::
  "(string \<Rightarrow> string) \<Rightarrow> database \<Rightarrow> string \<Rightarrow> string \<Rightarrow> string \<Rightarrow> string \<Rightarrow>
   string option \<Rightarrow> string \<Rightarrow> int \<Rightarrow> database \<times> int outcome" where
  "create_user H db dt_now ts username password email role max_connections =
     (let hashed_password = H password;
          api_key = H (username @ dt_now)
      in if username \<in> set (map u_username (users db))
            \<or> Some api_key \<in> set (map u_api_key (users db))
         then (db, Raised IntegrityError)
         else
           (let user_id = next_rowid (users_seq db) (map u_id (users db))
            in then_return
                 (log_action True
                    (db\<lparr>users := users db @
                          [\<lparr>u_id = user_id, u_username = username,
                            u_password = hashed_password, u_email = email,
                            u_role = Some role, u_is_active = Some 1,
                            u_max_connections = Some max_connections,
                            u_created_at = Some ts, u_expires_at = None,
                            u_last_login = None, u_total_streams = Some 0,
                            u_api_key = Some api_key\<rparr>],
                        users_seq := user_id\<rparr>)
                    ts (Some user_id) ''user_created'' (''Created user: '' @ username))
                 user_id))"

text \<open>
  \<^verbatim>\<open>SELECT * FROM users WHERE username = ? AND password = ? AND is_active = 1\<close>;
  \<^verbatim>\<open>expires_at\<close> is not part of the query and is not looked at afterwards.
\<close>

definition select_user :: "database \<Rightarrow> string \<Rightarrow> string \<Rightarrow> user_row option" where
  "select_user db username hashed_password =
     find (\<lambda>u. u_username u = username \<and> u_password u = hashed_password
                \<and> u_is_active u = Some 1)
       (users db)"

text \<open>
  When a row is found, \<^verbatim>\<open>last_login\<close> is written and committed, then \<^verbatim>\<open>log_action\<close>
  is called inside the \<^verbatim>\<open>with self.lock:\<close> block.  The value to return is the row
  as fetched before the update.
\<close>

definition authenticate_user ::
  "(string \<Rightarrow> string) \<Rightarrow> database \<Rightarrow> string \<Rightarrow> string \<Rightarrow> string \<Rightarrow>
   database \<times> user_row option outcome" where
  "authenticate_user H db ts username password =
     (let hashed_password = H password
      in case select_user db username hashed_password of
           Some user \<Rightarrow>
             then_return
               (log_action True
                  (db\<lparr>users := map (\<lambda>u. if u_id u = u_id user
                                          then u\<lparr>u_last_login := Some ts\<rparr> else u)
                                  (users db)\<rparr>)
                  ts (Some (u_id user)) ''user_login'' ''User logged in'')
               (Some user)
         | None \<Rightarrow> (db, Returned None))"

section \<open>The playlist: \<^verbatim>\<open>IPTVDatabase.generate_m3u_playlist\<close>\<close>

text \<open>
  The query is
  \<^verbatim>\<open>SELECT ls.*, c.category_name FROM live_streams ls
  LEFT JOIN categories c ON ls.category_id = c.category_id
  WHERE ls.user_id = ? AND ls.is_active = 1 ORDER BY c.category_name, ls.stream_name\<close>.
  The sort key is the name found in the \<^verbatim>\<open>categories\<close> table (NULL, which sorts
  first, when the join finds nothing).  Rows with equal keys are kept in table order.
\<close>

definition joined_category_name :: "database \<Rightarrow> stream_row \<Rightarrow> string option" where
  "joined_category_name db s =
     (case ls_category_id s of
        None \<Rightarrow> None
      | Some cid \<Rightarrow> map_option c_category_name (find (\<lambda>c. c_category_id c = cid) (categories db)))"

definition playlist_query :: "database \<Rightarrow> int \<Rightarrow> stream_row list" where
  "playlist_query db user_id =
     sort_key (\<lambda>s. (joined_category_name db s, stream_name s))
       (filter (\<lambda>s. ls_user_id s = Some user_id \<and> ls_is_active s = Some 1) (live_streams db))"

text \<open>
  The result rows have two columns called \<^verbatim>\<open>category_name\<close>; \<^verbatim>\<open>dict(stream)\<close> reads a
  \<^verbatim>\<open>sqlite3.Row\<close> by name, which yields the first column of that name, the one of
  \<^verbatim>\<open>live_streams\<close>.  So the text of the playlist uses \<open>ls_category_name\<close>.
  Every field goes into the f-strings as it is; \<^verbatim>\<open>None\<close> prints as \<^verbatim>\<open>None\<close>.
\<close>

definition dq :: char where
  "dq = CHR 0x22"

definition nl :: char where
  "nl = CHR 0x0A"

definition m3u_header :: "string \<Rightarrow> int \<Rightarrow> string" where
  "m3u_header generated user_id =
     ''#EXTM3U'' @ [nl] @
     ''# Generated: '' @ generated @ [nl] @
     ''# User ID: '' @ str_int user_id @ [nl, nl]"

definition group_marker :: "string option \<Rightarrow> string" where
  "group_marker cat =
     [nl] @ ''#EXTINF:-1 group-title='' @ [dq] @ str_opt cat @ [dq] @ '','' @ str_opt cat @ [nl] @
     ''#EXTVLCOPT:network-caching=1000'' @ [nl]"

text \<open>\<^verbatim>\<open>stream_dict["epg_channel_id"] or stream_dict["stream_name"]\<close>\<close>

definition tvg_id :: "stream_row \<Rightarrow> string" where
  "tvg_id s =
     (case epg_channel_id s of
        None \<Rightarrow> stream_name s
      | Some e \<Rightarrow> if e = [] then stream_name s else e)"

definition extinf_line :: "stream_row \<Rightarrow> string" where
  "extinf_line s =
     ''#EXTINF:-1 tvg-id='' @ [dq] @ tvg_id s @ [dq] @ '' '' @
     ''tvg-name='' @ [dq] @ stream_name s @ [dq] @ '' '' @
     ''tvg-logo='' @ [dq] @ str_opt (stream_icon s) @ [dq] @ '' '' @
     ''group-title='' @ [dq] @ str_opt (ls_category_name s) @ [dq] @ '','' @ stream_name s @ [nl]"

definition url_line :: "string \<Rightarrow> stream_row \<Rightarrow> string" where
  "url_line output_format s =
     (if output_format = ''ts'' then str_opt (proxy_url s) @ [nl] else stream_url s @ [nl])"

text \<open>
  One round of the \<^verbatim>\<open>for stream in streams\<close> loop on the pair
  (\<^verbatim>\<open>m3u_content\<close>, \<^verbatim>\<open>current_category\<close>).
\<close>

definition playlist_step ::
  "string \<Rightarrow> string \<times> string option \<Rightarrow> stream_row \<Rightarrow> string \<times> string option" where
  "playlist_step output_format st s =
     (let (m3u_content, current_category) = st;
          (m3u_content, current_category) =
             (if ls_category_name s \<noteq> current_category
              then (m3u_content @ group_marker (ls_category_name s), ls_category_name s)
              else (m3u_content, current_category));
          m3u_content = m3u_content @ extinf_line s;
          m3u_content = m3u_content @ url_line output_format s
      in (m3u_content, current_category))"

text \<open>
  \<open>generated\<close> is \<^verbatim>\<open>datetime.now().strftime('%Y-%m-%d %H:%M:%S')\<close>;
  \<^verbatim>\<open>current_category\<close> starts as the empty string.
\<close>

definition generate_m3u_playlist :: "database \<Rightarrow> string \<Rightarrow> int \<Rightarrow> string \<Rightarrow> string" where
  "generate_m3u_playlist db generated user_id output_format =
     fst (foldl (playlist_step output_format)
            (m3u_header generated user_id, Some [])
            (playlist_query db user_id))"

text \<open>
  The text that follows the header, written out entry by entry for a list of rows when
  the category of the previous entry is \<open>current\<close>: the two marker lines, present
  exactly when the row's stored category name differs from \<open>current\<close>, then the
  \<^verbatim>\<open>#EXTINF\<close> line and the address line of the row.
\<close>

fun playlist_body :: "string \<Rightarrow> string option \<Rightarrow> stream_row list \<Rightarrow> string" where
  "playlist_body output_format current [] = []"
| "playlist_body output_format current (s # ss) =
     (if ls_category_name s \<noteq> current
      then ''\<newline>#EXTINF:-1 group-title=\"'' @ str_opt (ls_category_name s) @ ''\",''
             @ str_opt (ls_category_name s) @ ''\<newline>''
             @ ''#EXTVLCOPT:network-caching=1000\<newline>''
      else []) @
     ''#EXTINF:-1 tvg-id=\"'' @
       (case epg_channel_id s of
          None \<Rightarrow> stream_name s
        | Some e \<Rightarrow> if e = [] then stream_name s else e) @
     ''\" tvg-name=\"'' @ stream_name s @
     ''\" tvg-logo=\"'' @ str_opt (stream_icon s) @
     ''\" group-title=\"'' @ str_opt (ls_category_name s) @ ''\",'' @ stream_name s @
     ''\<newline>'' @
     (if output_format = ''ts'' then str_opt (proxy_url s) else stream_url s) @ ''\<newline>'' @
     playlist_body output_format (ls_category_name s) ss"

section \<open>The tables and the API of server.py\<close>

text \<open>
  \<^verbatim>\<open>XtreamCodesServer\<close> keeps its own tables \<^verbatim>\<open>users_xtream\<close> and
  \<^verbatim>\<open>categories_xtream\<close>; it takes no lock and writes no log.  A row is the tuple the
  code indexes: \<^verbatim>\<open>user[1]\<close> is the username, \<^verbatim>\<open>user[4]\<close> the cap, \<^verbatim>\<open>user[5]\<close> the
  creation time, \<^verbatim>\<open>user[6]\<close> the expiry.
\<close>

record xtream_user =
  x_id :: int
  x_username :: "string option"
  x_password :: "string option"
  x_is_active :: "int option"
  x_max_connections :: "int option"
  x_created_at :: "string option"
  x_expires_at :: "string option"
  x_total_streams :: "int option"

record xtream_category =
  xc_category_id :: int
  xc_category_name :: "string option"
  xc_parent_id :: "int option"

record server_db =
  users_xtream :: "xtream_user list"
  categories_xtream :: "xtream_category list"

text \<open>The value given to \<^verbatim>\<open>json.dumps\<close>; a dict keeps its insertion order.\<close>

datatype json = JNull | JInt int | JStr string | JList "json list" | JDict "(string \<times> json) list"

definition json_text :: "string option \<Rightarrow> json" where
  "json_text v = (case v of None \<Rightarrow> JNull | Some s \<Rightarrow> JStr s)"

definition json_int :: "int option \<Rightarrow> json" where
  "json_int v = (case v of None \<Rightarrow> JNull | Some i \<Rightarrow> JInt i)"

text \<open>
  \<^verbatim>\<open>SELECT * FROM users_xtream WHERE username=? AND password=? AND is_active=1\<close>, then
  \<^verbatim>\<open>fetchone()\<close>.  (The method is \<^verbatim>\<open>XtreamCodesServer.authenticate_user\<close>.)
\<close>

definition authenticate_user_xtream ::
  "(string \<Rightarrow> string) \<Rightarrow> server_db \<Rightarrow> string \<Rightarrow> string \<Rightarrow> xtream_user option" where
  "authenticate_user_xtream H sdb username password =
     (let hashed_pass = H password
      in find (\<lambda>u. sql_eq (x_username u) (Some username) \<and> sql_eq (x_password u) (Some hashed_pass)
                    \<and> sql_eq (x_is_active u) (Some 1))
           (users_xtream sdb))"

definition negative_envelope :: json where
  "negative_envelope = JDict [(''user_info'', JDict [(''auth'', JInt 0)])]"

definition get_user_info :: "server_db \<Rightarrow> string \<Rightarrow> json" where
  "get_user_info sdb username =
     (case find (\<lambda>u. sql_eq (x_username u) (Some username)) (users_xtream sdb) of
        Some user \<Rightarrow>
          JDict [(''user_info'', JDict
            [(''username'', json_text (x_username user)),
             (''password'', JStr ''********''),
             (''message'', JStr ''Authorized''),
             (''auth'', JInt 1),
             (''status'', JStr ''Active''),
             (''exp_date'',
                (case x_expires_at user of
                   None \<Rightarrow> JStr ''2099-12-31''
                 | Some e \<Rightarrow> if e = [] then JStr ''2099-12-31'' else JStr e)),
             (''is_trial'', JInt 0),
             (''active_cons'', JInt 0),
             (''created_at'', json_text (x_created_at user)),
             (''max_connections'', json_int (x_max_connections user)),
             (''allowed_output_formats'', JList [JStr ''m3u8'', JStr ''ts'', JStr ''rtmp''])])]
      | None \<Rightarrow> negative_envelope)"

definition get_live_categories :: "server_db \<Rightarrow> json" where
  "get_live_categories sdb =
     JDict [(''categories'',
       JList (map (\<lambda>c. JDict [(''category_id'', JInt (xc_category_id c)),
                               (''category_name'', json_text (xc_category_name c)),
                               (''parent_id'', JInt 1)])
                (filter (\<lambda>c. sql_eq (xc_parent_id c) (Some 1)) (categories_xtream sdb))))]"

text \<open>
  \<^verbatim>\<open>handle_api_request\<close> from the parsed query on: \<open>params\<close> is the dictionary that
  \<^verbatim>\<open>urllib.parse.parse_qs\<close> returns (it has no entry for a parameter that is absent or
  blank), and \<open>param\<close> is \<^verbatim>\<open>params.get(name, [''])[0]\<close>.  The class defines
  \<^verbatim>\<open>get_live_categories\<close> only; the calls of \<^verbatim>\<open>self.get_live_streams\<close>,
  \<^verbatim>\<open>self.get_vod_categories\<close> and \<^verbatim>\<open>self.get_vod_streams\<close> raise
  \<^verbatim>\<open>AttributeError\<close>.
\<close>

definition param :: "(string \<rightharpoonup> string list) \<Rightarrow> string \<Rightarrow> error + string" where
  "param params name =
     (case params name of
        None \<Rightarrow> Inr []
      | Some [] \<Rightarrow> Inl IndexError
      | Some (v # vs) \<Rightarrow> Inr v)"

definition dispatch_action ::
  "(string \<Rightarrow> string) \<Rightarrow> server_db \<Rightarrow> string \<Rightarrow> string \<Rightarrow> string \<Rightarrow> error + json" where
  "dispatch_action H sdb action username password =
     (case authenticate_user_xtream H sdb username password of
        None \<Rightarrow> Inr negative_envelope
      | Some user \<Rightarrow>
          if action = ''get_live_categories'' then Inr (get_live_categories sdb)
          else if action = ''get_live_streams'' then Inl AttributeError
          else if action = ''get_vod_categories'' then Inl AttributeError
          else if action = ''get_vod_streams'' then Inl AttributeError
          else Inr (get_user_info sdb username))"

definition handle_api_request ::
  "(string \<Rightarrow> string) \<Rightarrow> server_db \<Rightarrow> (string \<rightharpoonup> string list) \<Rightarrow> error + json" where
  "handle_api_request H sdb params =
     (case param params ''action'' of
        Inl e \<Rightarrow> Inl e
      | Inr action \<Rightarrow>
          (case param params ''username'' of
             Inl e \<Rightarrow> Inl e
           | Inr username \<Rightarrow>
               (case param params ''password'' of
                  Inl e \<Rightarrow> Inl e
                | Inr password \<Rightarrow> dispatch_action H sdb action username password)))"

definition known_actions :: "string set" where
  "known_actions =
     {''get_live_categories'', ''get_live_streams'', ''get_vod_categories'', ''get_vod_streams''}"

text \<open>The \<^verbatim>\<open>auth\<close> field of a response, if it has one.\<close>

definition auth_field :: "json \<Rightarrow> json option" where
  "auth_field j =
     (case j of
        JDict kv \<Rightarrow>
          (case map_of kv ''user_info'' of
             Some (JDict info) \<Rightarrow> map_of info ''auth''
           | _ \<Rightarrow> None)
      | _ \<Rightarrow> None)"

section \<open>Example states\<close>

text \<open>
  Closed examples need some function in the place of the digest.  They use the reversal
  of the text, which like a digest is a fixed function of its input; nothing that is
  proved for every \<open>H\<close> depends on this choice.
\<close>

definition example_digest :: "string \<Rightarrow> string" where
  "example_digest s = rev s"

text \<open>
  The two users that \<^verbatim>\<open>add_default_data\<close> inserts into an empty \<^verbatim>\<open>users\<close> table:
  \<^verbatim>\<open>admin\<close> with cap 10 and \<^verbatim>\<open>demo\<close>, whose cap is the column default 1 and whose
  \<^verbatim>\<open>expires_at\<close> is thirty days after the insertion.
\<close>

definition example_database :: database where
  "example_database =
     empty_database
       \<lparr>users :=
          [\<lparr>u_id = 1, u_username = ''admin'', u_password = example_digest ''admin123'',
            u_email = Some ''admin@iptv.com'', u_role = Some ''admin'', u_is_active = Some 1,
            u_max_connections = Some 10, u_created_at = Some ''2026-01-01 09:00:00'',
            u_expires_at = None, u_last_login = None, u_total_streams = Some 0,
            u_api_key = None\<rparr>,
           \<lparr>u_id = 2, u_username = ''demo'', u_password = example_digest ''demo123'',
            u_email = Some ''demo@iptv.com'', u_role = Some ''user'', u_is_active = Some 1,
            u_max_connections = Some 1, u_created_at = Some ''2026-01-01 09:00:00'',
            u_expires_at = Some ''2026-01-31 10:00:00'', u_last_login = None,
            u_total_streams = Some 0, u_api_key = None\<rparr>],
        users_seq := 2\<rparr>"

text \<open>Two admissions for \<^verbatim>\<open>demo\<close> from two clients.\<close>

definition admit_a :: core_op where
  "admit_a = CreateSession ''2026-01-02 10:00:00.000001'' ''2026-01-02 09:00:00'' 2 None
               (Some ''10.0.0.1'') None"

definition admit_b :: core_op where
  "admit_b = CreateSession ''2026-01-02 10:00:00.000002'' ''2026-01-02 09:00:00'' 2 None
               (Some ''10.0.0.2'') None"

text \<open>A state with one session that the sweep has closed and one that is live.\<close>

definition closed_session :: session_row where
  "closed_session =
     \<lparr>s_session_id = ''0f3a'', s_user_id = 2, s_stream_id = None,
      s_client_ip = Some ''10.0.0.1'', s_user_agent = None,
      s_start_time = ''2025-11-01 08:00:00'', s_last_active = ''2025-11-01 08:30:00'',
      s_is_active = 0, s_bytes_sent = 4096\<rparr>"

definition example_sessions :: database where
  "example_sessions =
     example_database
       \<lparr>active_sessions :=
          [closed_session,
           \<lparr>s_session_id = ''77b1'', s_user_id = 1, s_stream_id = None,
            s_client_ip = Some ''10.0.0.9'', s_user_agent = None,
            s_start_time = ''2026-01-02 08:00:00'', s_last_active = ''2026-01-02 08:30:00'',
            s_is_active = 1, s_bytes_sent = 10\<rparr>]\<rparr>"

definition example_ops :: "core_op list" where
  "example_ops =
     [UpdateSession ''2026-01-02 09:00:00'' ''0f3a'' 500,
      CheckUserConnections 2,
      admit_a,
      CleanupOldData ''2026-01-02 09:00:01'' ''2025-12-03 10:00:01'' 30,
      UpdateSession ''2026-01-02 09:00:02'' ''0f3a'' 1]"

text \<open>The \<^verbatim>\<open>demo\<close> row of \<open>example_database\<close>, by itself.\<close>

definition demo_row :: user_row where
  "demo_row =
     \<lparr>u_id = 2, u_username = ''demo'', u_password = example_digest ''demo123'',
      u_email = Some ''demo@iptv.com'', u_role = Some ''user'', u_is_active = Some 1,
      u_max_connections = Some 1, u_created_at = Some ''2026-01-01 09:00:00'',
      u_expires_at = Some ''2026-01-31 10:00:00'', u_last_login = None,
      u_total_streams = Some 0, u_api_key = None\<rparr>"

text \<open>
  A \<^verbatim>\<open>users_xtream\<close> table with one active subscriber whose \<^verbatim>\<open>expires_at\<close> has
  passed.
\<close>

definition expired_user :: xtream_user where
  "expired_user =
     \<lparr>x_id = 1, x_username = Some ''demo'', x_password = Some (example_digest ''demo''),
      x_is_active = Some 1, x_max_connections = Some 1,
      x_created_at = Some ''2023-01-01 00:00:00'', x_expires_at = Some ''2024-01-01 00:00:00'',
      x_total_streams = Some 0\<rparr>"

definition example_server_db :: server_db where
  "example_server_db = \<lparr>users_xtream = [expired_user], categories_xtream = []\<rparr>"

text \<open>
  The catalog of the playlist scenario: subscriber 7 owns the active streams X and Y in
  category catA and Z in catB; the table also holds a stream of another subscriber and an
  inactive stream of subscriber 7, and its rows are not in playlist order.
\<close>

definition stream_x :: stream_row where
  "stream_x =
     \<lparr>ls_stream_id = 5, stream_name = ''X'', stream_url = ''http://origin.example/x.m3u8'',
      ls_category_id = Some 1, ls_category_name = Some ''catA'',
      stream_icon = Some ''http://img.example/x.png'', epg_channel_id = Some ''x.tv'',
      ls_is_active = Some 1, ls_user_id = Some 7,
      proxy_url = Some ''http://localhost/live/0a1b2c3d''\<rparr>"

definition stream_y :: stream_row where
  "stream_y =
     \<lparr>ls_stream_id = 3, stream_name = ''Y'', stream_url = ''http://origin.example/y.m3u8'',
      ls_category_id = Some 1, ls_category_name = Some ''catA'',
      stream_icon = None, epg_channel_id = None,
      ls_is_active = Some 1, ls_user_id = Some 7,
      proxy_url = Some ''http://localhost/live/4e5f6a7b''\<rparr>"

definition stream_z :: stream_row where
  "stream_z =
     \<lparr>ls_stream_id = 1, stream_name = ''Z'', stream_url = ''http://origin.example/z.m3u8'',
      ls_category_id = Some 2, ls_category_name = Some ''catB'',
      stream_icon = Some ''http://img.example/z.png'', epg_channel_id = Some ''z.tv'',
      ls_is_active = Some 1, ls_user_id = Some 7,
      proxy_url = Some ''http://localhost/live/8c9d0e1f''\<rparr>"

definition playlist_database :: database where
  "playlist_database =
     empty_database
       \<lparr>live_streams :=
          [stream_z,
           stream_x\<lparr>ls_stream_id := 2, stream_name := ''Q'', ls_user_id := Some 8\<rparr>,
           stream_y,
           stream_x\<lparr>ls_stream_id := 4, stream_name := ''A'', ls_is_active := Some 0\<rparr>,
           stream_x],
        categories :=
          [\<lparr>c_category_id = 1, c_category_name = ''catA''\<rparr>,
           \<lparr>c_category_id = 2, c_category_name = ''catB''\<rparr>]\<rparr>"

text \<open>
  The same three streams after the category row of Y has been renamed: Y now joins the
  row 3, called catC, while the stream row still stores catA.
\<close>

definition renamed_database :: database where
  "renamed_database =
     empty_database
       \<lparr>live_streams := [stream_z, stream_y\<lparr>ls_category_id := Some 3\<rparr>, stream_x],
        categories :=
          [\<lparr>c_category_id = 1, c_category_name = ''catA''\<rparr>,
           \<lparr>c_category_id = 2, c_category_name = ''catB''\<rparr>,
           \<lparr>c_category_id = 3, c_category_name = ''catC''\<rparr>]\<rparr>"

text \<open>
  The same three streams added with a \<^verbatim>\<open>category_id\<close> but without a
  \<^verbatim>\<open>category_name\<close>: the categories are catA, catA and catB, the stored names are NULL.
\<close>

definition unnamed_database :: database where
  "unnamed_database =
     empty_database
       \<lparr>live_streams :=
          [stream_z\<lparr>ls_category_name := None\<rparr>,
           stream_y\<lparr>ls_category_name := None\<rparr>,
           stream_x\<lparr>ls_category_name := None\<rparr>],
        categories :=
          [\<lparr>c_category_id = 1, c_category_name = ''catA''\<rparr>,
           \<lparr>c_category_id = 2, c_category_name = ''catB''\<rparr>]\<rparr>"

text \<open>
  A stream whose name is \<^verbatim>\<open>News "24"\<close> and whose icon address contains a line break.
\<close>

definition quoted_stream :: stream_row where
  "quoted_stream =
     \<lparr>ls_stream_id = 1, stream_name = ''News '' @ [dq] @ ''24'' @ [dq],
      stream_url = ''http://origin.example/n.m3u8'',
      ls_category_id = Some 1, ls_category_name = Some ''News'',
      stream_icon = Some (''logo'' @ [nl] @ ''.png''), epg_channel_id = Some ''news24'',
      ls_is_active = Some 1, ls_user_id = Some 7,
      proxy_url = Some ''http://localhost/live/11223344''\<rparr>"

definition quoted_database :: database where
  "quoted_database =
     empty_database
       \<lparr>live_streams := [quoted_stream],
        categories := [\<lparr>c_category_id = 1, c_category_name = ''News''\<rparr>]\<rparr>"

section \<open>Facts about lists\<close>

lemma find_append_first: "find P xs = Some x \<Longrightarrow> find P (xs @ ys) = Some x"
  by (induction xs) (auto split: if_splits)

lemma find_map_same:
  assumes "\<And>x. P (f x) = P x"
  shows "find P (map f xs) = map_option f (find P xs)"
  using assms by (induction xs) auto

lemma length_filter_map_le:
  assumes "\<And>x. P (f x) \<Longrightarrow> P x"
  shows "length (filter P (map f xs)) \<le> length (filter P xs)"
  using assms by (induction xs) auto

lemma length_filter_map_eq:
  assumes "\<And>x. P (f x) = P x"
  shows "length (filter P (map f xs)) = length (filter P xs)"
  using assms by (induction xs) auto

section \<open>Properties of the statistics\<close>

lemma fold_max_ge: "(s::int) \<le> fold max ids s"
  by (induction ids arbitrary: s) (auto intro: order_trans [OF max.cobounded2])

lemma fold_max_mem: "(i::int) \<in> set ids \<Longrightarrow> i \<le> fold max ids s"
proof (induction ids arbitrary: s)
  case Nil
  then show ?case by simp
next
  case (Cons a ids)
  show ?case
  proof (cases "i = a")
    case True
    have "a \<le> max a s" by simp
    also have "\<dots> \<le> fold max ids (max a s)" by (rule fold_max_ge)
    finally show ?thesis using True by simp
  next
    case False
    with Cons.prems have "i \<in> set ids" by simp
    then show ?thesis using Cons.IH by simp
  qed
qed

lemma next_rowid_fresh: "i \<in> set ids \<Longrightarrow> i < next_rowid seq ids"
  using fold_max_mem [of i ids seq] by (simp add: next_rowid_def)

lemma stat_matches_Some:
  "stat_matches d (Some u) (Some s) r \<longleftrightarrow>
     stat_date r = d \<and> st_user_id r = Some u \<and> st_stream_id r = Some s"
  by (cases "st_user_id r"; cases "st_stream_id r") (auto simp: stat_matches_def)

lemma find_append_last:
  "\<forall>x\<in>set xs. \<not> P x \<Longrightarrow> P r \<Longrightarrow> find P (xs @ [r]) = Some r"
  by (induction xs) auto

lemma map_update_stat_others:
  "\<forall>x\<in>set xs. stat_id x \<noteq> sid \<Longrightarrow> map (update_stat sid b v) xs = xs"
  by (induction xs) (auto simp: update_stat_def)

lemma add_statistic_insert:
  assumes "stat_key_rows db d (Some u) (Some s) = []"
  shows "add_statistic db d (Some u) (Some s) b v =
           db\<lparr>statistics := statistics db @
                 [\<lparr>stat_id = next_rowid (statistics_seq db) (map stat_id (statistics db)),
                   stat_date = d, st_user_id = Some u, st_stream_id = Some s,
                   total_views = v, total_bytes = b, peak_viewers = v\<rparr>],
               statistics_seq := next_rowid (statistics_seq db) (map stat_id (statistics db))\<rparr>"
proof -
  from assms have "\<forall>r\<in>set (statistics db). \<not> stat_matches d (Some u) (Some s) r"
    by (auto simp: stat_key_rows_def stat_matches_Some filter_empty_conv)
  then have "find (stat_matches d (Some u) (Some s)) (statistics db) = None"
    by (simp add: find_None_iff)
  then show ?thesis
    by (simp add: add_statistic_def Let_def)
qed

lemma add_statistic_update:
  assumes rows: "statistics db = xs @ [r]"
    and fresh: "\<forall>x\<in>set xs. stat_id x \<noteq> stat_id r"
    and others: "\<forall>x\<in>set xs. \<not> stat_matches d (Some u) (Some s) x"
    and mine: "stat_matches d (Some u) (Some s) r"
  shows "add_statistic db d (Some u) (Some s) b v =
           db\<lparr>statistics := xs @ [update_stat (stat_id r) b v r]\<rparr>"
proof -
  have "find (stat_matches d (Some u) (Some s)) (statistics db) = Some r"
    using rows others mine by (simp add: find_append_last)
  moreover have "map (update_stat (stat_id r) b v) xs = xs"
    using fresh by (rule map_update_stat_others)
  ultimately show ?thesis
    by (simp add: add_statistic_def rows)
qed

text \<open>
  Claim C4.  Start from a table with no row for the day and the (subscriber, stream) key,
  both ids present.  After three calls of \<^verbatim>\<open>add_statistic\<close> on that day with viewers
  3, 7 and 2, the key has exactly one row; its \<^verbatim>\<open>total_views\<close> is 12 (the sum), its
  \<^verbatim>\<open>peak_viewers\<close> is 7 (the maximum) and its \<^verbatim>\<open>total_bytes\<close> is the sum of the
  three byte counts.
\<close>

theorem stat_merge_3_7_2:
  assumes "stat_key_rows db today (Some u) (Some s) = []"
  shows "stat_key_rows
           (add_statistic
              (add_statistic
                 (add_statistic db today (Some u) (Some s) b1 3)
                 today (Some u) (Some s) b2 7)
              today (Some u) (Some s) b3 2)
           today (Some u) (Some s)
         = [\<lparr>stat_id = next_rowid (statistics_seq db) (map stat_id (statistics db)),
             stat_date = today, st_user_id = Some u, st_stream_id = Some s,
             total_views = 12, total_bytes = b1 + b2 + b3, peak_viewers = 7\<rparr>]"
proof -
  define n where "n = next_rowid (statistics_seq db) (map stat_id (statistics db))"
  define xs where "xs = statistics db"
  define r1 where "r1 = \<lparr>stat_id = n, stat_date = today, st_user_id = Some u,
    st_stream_id = Some s, total_views = 3, total_bytes = b1, peak_viewers = 3\<rparr>"
  define r2 where "r2 = update_stat n b2 7 r1"
  define r3 where "r3 = update_stat n b3 2 r2"
  have fresh: "\<forall>x\<in>set xs. stat_id x \<noteq> n"
  proof
    fix x assume "x \<in> set xs"
    then have "stat_id x \<in> set (map stat_id (statistics db))"
      by (simp add: xs_def)
    then have "stat_id x < n"
      unfolding n_def by (rule next_rowid_fresh)
    then show "stat_id x \<noteq> n" by simp
  qed
  have others: "\<forall>x\<in>set xs. \<not> stat_matches today (Some u) (Some s) x"
    using assms by (auto simp: stat_key_rows_def stat_matches_Some filter_empty_conv xs_def)
  have id1: "stat_id r1 = n" and id2: "stat_id r2 = n"
    by (simp_all add: r1_def r2_def update_stat_def)
  have m1: "stat_matches today (Some u) (Some s) r1"
    by (simp add: stat_matches_Some r1_def)
  have m2: "stat_matches today (Some u) (Some s) r2"
    by (simp add: stat_matches_Some r1_def r2_def update_stat_def)
  define db1 where "db1 = add_statistic db today (Some u) (Some s) b1 3"
  have s1: "statistics db1 = xs @ [r1]"
    unfolding db1_def using add_statistic_insert [OF assms, of b1 3]
    by (simp add: n_def xs_def r1_def)
  define db2 where "db2 = add_statistic db1 today (Some u) (Some s) b2 7"
  have s2: "statistics db2 = xs @ [r2]"
    unfolding db2_def
    using add_statistic_update [OF s1 _ others m1, of b2 7] fresh
    by (simp add: id1 r2_def)
  define db3 where "db3 = add_statistic db2 today (Some u) (Some s) b3 2"
  have s3: "statistics db3 = xs @ [r3]"
    unfolding db3_def
    using add_statistic_update [OF s2 _ others m2, of b3 2] fresh
    by (simp add: id2 r3_def)
  have r3: "r3 = \<lparr>stat_id = n, stat_date = today, st_user_id = Some u,
    st_stream_id = Some s, total_views = 12, total_bytes = b1 + b2 + b3, peak_viewers = 7\<rparr>"
    by (simp add: r3_def r2_def r1_def update_stat_def)
  have "filter (\<lambda>r. stat_date r = today \<and> st_user_id r = Some u \<and> st_stream_id r = Some s) xs = []"
    using assms by (simp add: stat_key_rows_def xs_def)
  then have "stat_key_rows db3 today (Some u) (Some s) = [r3]"
    by (simp add: stat_key_rows_def s3 r3)
  then show ?thesis
    by (simp add: db3_def db2_def db1_def r3 n_def)
qed

theorem stat_merge_3_7_2_witness:
  "stat_key_rows empty_database ''2026-01-15'' (Some 2) (Some 5) = [] \<and>
   stat_key_rows
     (add_statistic
        (add_statistic
           (add_statistic empty_database ''2026-01-15'' (Some 2) (Some 5) 100 3)
           ''2026-01-15'' (Some 2) (Some 5) 200 7)
        ''2026-01-15'' (Some 2) (Some 5) 300 2)
     ''2026-01-15'' (Some 2) (Some 5)
   = [\<lparr>stat_id = 1, stat_date = ''2026-01-15'', st_user_id = Some 2, st_stream_id = Some 5,
       total_views = 12, total_bytes = 600, peak_viewers = 7\<rparr>]"
proof -
  have h: "stat_key_rows empty_database ''2026-01-15'' (Some 2) (Some 5) = []"
    by (simp add: stat_key_rows_def empty_database_def)
  show ?thesis
    using h stat_merge_3_7_2 [OF h, of 100 200 300]
    by (simp add: next_rowid_def empty_database_def)
qed

text \<open>
  For keys whose subscriber and stream ids are both present the check does find the row:
  a call of \<^verbatim>\<open>add_statistic\<close>, with any arguments, keeps every such key at one row at
  most.
\<close>

lemma add_statistic_present_key_unique:
  assumes inv: "\<And>d u s. length (stat_key_rows db d (Some u) (Some s)) \<le> 1"
  shows "length (stat_key_rows (add_statistic db today uid sid b v) d (Some u) (Some s)) \<le> 1"
proof (cases "find (stat_matches today uid sid) (statistics db)")
  case (Some existing)
  let ?P = "\<lambda>r. stat_date r = d \<and> st_user_id r = Some u \<and> st_stream_id r = Some s"
  have "length (filter ?P (map (update_stat (stat_id existing) b v) (statistics db)))
          = length (filter ?P (statistics db))"
    by (rule length_filter_map_eq) (simp add: update_stat_def)
  with Some inv [of d u s] show ?thesis
    by (simp add: add_statistic_def stat_key_rows_def)
next
  case None
  show ?thesis
  proof (cases "today = d \<and> uid = Some u \<and> sid = Some s")
    case True
    from None have "\<forall>r\<in>set (statistics db). \<not> stat_matches today uid sid r"
      by (simp add: find_None_iff)
    with True have "stat_key_rows db d (Some u) (Some s) = []"
      by (auto simp: stat_key_rows_def stat_matches_Some filter_empty_conv)
    with None True show ?thesis
      by (simp add: add_statistic_def stat_key_rows_def Let_def)
  next
    case False
    with None inv [of d u s] show ?thesis
      by (auto simp: add_statistic_def stat_key_rows_def Let_def)
  qed
qed

text \<open>
  Claim C5.  The existence check compares with \<^verbatim>\<open>user_id = ?\<close> and
  \<^verbatim>\<open>stream_id = ?\<close>, which is never true for an absent id, so every call with an
  absent subscriber or stream id takes the INSERT branch.  Two calls of
  \<^verbatim>\<open>add_statistic()\<close> with the default arguments on one day, from the empty table,
  leave two rows for the key (day, no subscriber, no stream).
\<close>

theorem null_key_duplicates:
  "length (stat_key_rows
     (add_statistic (add_statistic empty_database ''2026-01-15'' None None 0 0)
        ''2026-01-15'' None None 0 0)
     ''2026-01-15'' None None) = 2"
  by (simp add: add_statistic_def stat_key_rows_def stat_matches_def empty_database_def
      next_rowid_def Let_def)

section \<open>Properties of the sessions\<close>

text \<open>A call of \<^verbatim>\<open>log_action\<close> made while the lock is held never returns.\<close>

lemma log_action_held: "log_action True db now uid a d = (db, Blocked)"
  by (simp add: log_action_def)

lemma create_session_sessions:
  "active_sessions (fst (create_session H db dt ts uid st ip ua)) = active_sessions db
   \<or> (\<exists>r. active_sessions (fst (create_session H db dt ts uid st ip ua)) = active_sessions db @ [r]
          \<and> s_user_id r = uid \<and> s_is_active r = 1)"
  by (simp add: create_session_def Let_def log_action_held)

lemma create_session_users: "users (fst (create_session H db dt ts uid st ip ua)) = users db"
  by (simp add: create_session_def Let_def log_action_held)

lemma core_step_users: "users (core_step H db op) = users db"
  by (cases op)
    (simp_all add: create_session_users update_session_def cleanup_old_data_def log_action_held)

lemma core_step_keeps_terminal:
  assumes "get_session db sid = Some r" and "s_is_active r = 0"
  shows "get_session (core_step H db op) sid = Some r"
proof (cases op)
  case (CreateSession dt ts uid st ip ua)
  from create_session_sessions [of H db dt ts uid st ip ua] assms(1) show ?thesis
    unfolding CreateSession get_session_def by (auto simp: find_append_first)
next
  case (UpdateSession ts sid' b)
  let ?f = "\<lambda>r. if s_session_id r = sid' \<and> s_is_active r = 1
                  then r\<lparr>s_last_active := ts, s_bytes_sent := s_bytes_sent r + b\<rparr> else r"
  have "find (\<lambda>r. s_session_id r = sid) (map ?f (active_sessions db))
          = map_option ?f (find (\<lambda>r. s_session_id r = sid) (active_sessions db))"
    by (rule find_map_same) simp
  with assms show ?thesis
    unfolding UpdateSession get_session_def by (simp add: update_session_def)
next
  case (CheckUserConnections uid)
  with assms(1) show ?thesis by simp
next
  case (CleanupOldData ts cutoff days)
  let ?f = "\<lambda>r. if s_last_active r < cutoff then r\<lparr>s_is_active := 0\<rparr> else r"
  have "find (\<lambda>r. s_session_id r = sid) (map ?f (active_sessions db))
          = map_option ?f (find (\<lambda>r. s_session_id r = sid) (active_sessions db))"
    by (rule find_map_same) simp
  with assms show ?thesis
    unfolding CleanupOldData get_session_def
    by (simp add: cleanup_old_data_def log_action_held)
qed

text \<open>
  Claim C9.  A session row with \<^verbatim>\<open>is_active = 0\<close> is the same row after any sequence
  of \<^verbatim>\<open>create_session\<close>, \<^verbatim>\<open>update_session\<close>, \<^verbatim>\<open>check_user_connections\<close> and
  \<^verbatim>\<open>cleanup_old_data\<close> calls: it stays inactive, and its last-active time and byte
  counter (and every other column) keep their values.
\<close>

theorem terminal_session_frozen:
  assumes "get_session db sid = Some r" and "s_is_active r = 0"
  shows "get_session (core_run H db ops) sid = Some r"
  using assms(1)
proof (induction ops arbitrary: db)
  case Nil
  then show ?case by simp
next
  case (Cons op ops)
  from Cons.prems assms(2) have "get_session (core_step H db op) sid = Some r"
    by (rule core_step_keeps_terminal)
  then have "get_session (core_run H (core_step H db op) ops) sid = Some r"
    by (rule Cons.IH)
  then show ?case by simp
qed

theorem terminal_session_frozen_witness:
  "get_session example_sessions ''0f3a'' = Some closed_session \<and>
   s_is_active closed_session = 0 \<and>
   get_session (core_run example_digest example_sessions example_ops) ''0f3a''
     = Some closed_session"
proof -
  have h1: "get_session example_sessions ''0f3a'' = Some closed_session"
    by (simp add: get_session_def example_sessions_def closed_session_def)
  have h2: "s_is_active closed_session = 0"
    by (simp add: closed_session_def)
  show ?thesis
    using h1 h2 terminal_session_frozen [OF h1 h2, of example_digest example_ops] by simp
qed

lemma core_step_active_connections:
  assumes "under_cap db op" and "check_user_connections db u = Returned (a, N)"
    and "a \<le> N"
  shows "active_connections (core_step H db op) u \<le> N"
proof -
  from assms(2) have a: "a = active_connections db u"
    by (auto simp: check_user_connections_def split: option.splits)
  show ?thesis
  proof (cases op)
    case (CreateSession dt ts uid st ip ua)
    show ?thesis
    proof (cases "uid = u")
      case True
      with assms(1,2) CreateSession have "a < N" by simp
      with a create_session_sessions [of H db dt ts uid st ip ua] show ?thesis
        unfolding CreateSession by (auto simp: active_connections_def)
    next
      case False
      with a assms(3) create_session_sessions [of H db dt ts uid st ip ua] show ?thesis
        unfolding CreateSession by (auto simp: active_connections_def)
    qed
  next
    case (UpdateSession ts sid b)
    let ?f = "\<lambda>r. if s_session_id r = sid \<and> s_is_active r = 1
                    then r\<lparr>s_last_active := ts, s_bytes_sent := s_bytes_sent r + b\<rparr> else r"
    have "length (filter (\<lambda>r. s_user_id r = u \<and> s_is_active r = 1) (map ?f (active_sessions db)))
            = length (filter (\<lambda>r. s_user_id r = u \<and> s_is_active r = 1) (active_sessions db))"
      by (rule length_filter_map_eq) simp
    with a assms(3) show ?thesis
      unfolding UpdateSession by (simp add: update_session_def active_connections_def)
  next
    case (CheckUserConnections uid)
    with a assms(3) show ?thesis by simp
  next
    case (CleanupOldData ts cutoff days)
    let ?f = "\<lambda>r. if s_last_active r < cutoff then r\<lparr>s_is_active := 0\<rparr> else r"
    have "length (filter (\<lambda>r. s_user_id r = u \<and> s_is_active r = 1) (map ?f (active_sessions db)))
            \<le> length (filter (\<lambda>r. s_user_id r = u \<and> s_is_active r = 1) (active_sessions db))"
      by (rule length_filter_map_le) (simp split: if_splits)
    with a assms(3) show ?thesis
      unfolding CleanupOldData
      by (simp add: cleanup_old_data_def log_action_held active_connections_def)
  qed
qed

lemma core_step_check:
  assumes "under_cap db op" and "check_user_connections db u = Returned (a, N)"
    and "a \<le> N"
  shows "\<exists>a'. check_user_connections (core_step H db op) u = Returned (a', N) \<and> a' \<le> N"
proof -
  have "active_connections (core_step H db op) u \<le> N"
    using assms by (rule core_step_active_connections)
  with assms(2) show ?thesis
    by (auto simp: check_user_connections_def core_step_users split: option.splits)
qed

lemma checked_run_check:
  assumes "check_user_connections db u = Returned (a, N)" and "a \<le> N"
    and "checked_run H db ops"
  shows "\<exists>a'. check_user_connections (core_run H db ops) u = Returned (a', N) \<and> a' \<le> N"
  using assms
proof (induction ops arbitrary: db a)
  case Nil
  then show ?case by simp
next
  case (Cons op ops)
  from Cons.prems have "under_cap db op" and rest: "checked_run H (core_step H db op) ops"
    by simp_all
  with Cons.prems(1,2) obtain a' where
    c: "check_user_connections (core_step H db op) u = Returned (a', N)" and le: "a' \<le> N"
    using core_step_check by blast
  have "\<exists>a''. check_user_connections (core_run H (core_step H db op) ops) u = Returned (a'', N)
        \<and> a'' \<le> N"
    using c le rest by (rule Cons.IH)
  then show ?case by simp
qed

lemma checked_run_take: "checked_run H db ops \<Longrightarrow> checked_run H db (take n ops)"
proof (induction ops arbitrary: db n)
  case Nil
  then show ?case by simp
next
  case (Cons op ops)
  then show ?case by (cases n) simp_all
qed

text \<open>
  Claim C1, as the code allows it.  \<^verbatim>\<open>create_session\<close> compares nothing with the cap,
  so the bound holds only for call sequences that keep it themselves: if every
  \<^verbatim>\<open>create_session\<close> in the sequence starts in a state where
  \<^verbatim>\<open>check_user_connections\<close> reports fewer active sessions than the cap, then after
  every prefix of the sequence \<^verbatim>\<open>check_user_connections\<close> reports the same cap and an
  active count that does not exceed it.
\<close>

theorem checked_run_within_cap:
  assumes "check_user_connections db u = Returned (a, N)" and "a \<le> N"
    and "checked_run H db ops"
  shows "check_user_connections (core_run H db (take n ops)) u
           = Returned (active_connections (core_run H db (take n ops)) u, N)
         \<and> active_connections (core_run H db (take n ops)) u \<le> N"
proof -
  from assms(3) have "checked_run H db (take n ops)"
    by (rule checked_run_take)
  with assms(1,2) obtain a' where
    c: "check_user_connections (core_run H db (take n ops)) u = Returned (a', N)" and "a' \<le> N"
    using checked_run_check by blast
  moreover from c have "a' = active_connections (core_run H db (take n ops)) u"
    by (auto simp: check_user_connections_def split: option.splits)
  ultimately show ?thesis by simp
qed

theorem checked_run_within_cap_witness:
  "check_user_connections example_sessions 2 = Returned (0, 1) \<and> (0::int) \<le> 1 \<and>
   checked_run example_digest example_sessions example_ops \<and>
   check_user_connections (core_run example_digest example_sessions (take 3 example_ops)) 2
     = Returned (active_connections
                   (core_run example_digest example_sessions (take 3 example_ops)) 2, 1) \<and>
   active_connections (core_run example_digest example_sessions (take 3 example_ops)) 2 \<le> 1"
proof -
  have h1: "check_user_connections example_sessions 2 = Returned (0, 1)"
    by (simp add: check_user_connections_def active_connections_def example_sessions_def
        example_database_def empty_database_def closed_session_def)
  have h2: "(0::int) \<le> 1" by simp
  have h3: "checked_run example_digest example_sessions example_ops"
    by (simp add: example_ops_def admit_a_def update_session_def check_user_connections_def
        active_connections_def example_sessions_def example_database_def empty_database_def
        closed_session_def)
  show ?thesis
    using h1 h2 h3 checked_run_within_cap [OF h1 h2 h3, of 3] by simp
qed

text \<open>
  Claim C1, as stated, fails.  Two clients ask for a session for \<^verbatim>\<open>demo\<close>, whose cap
  is 1.  Both call \<^verbatim>\<open>check_user_connections\<close> before either inserts and both read
  (0, 1); both then call \<^verbatim>\<open>create_session\<close>, each on its own \<^verbatim>\<open>IPTVDatabase\<close>
  object over the same file.  Afterwards \<^verbatim>\<open>check_user_connections\<close> reports two active
  sessions against the cap 1.
\<close>

theorem cap_exceeded_counterexample:
  "check_user_connections example_database 2 = Returned (0, 1) \<and>
   check_user_connections
     (core_run example_digest example_database
        [CheckUserConnections 2, CheckUserConnections 2, admit_a, admit_b]) 2
     = Returned (2, 1) \<and>
   \<not> active_connections
       (core_run example_digest example_database
          [CheckUserConnections 2, CheckUserConnections 2, admit_a, admit_b]) 2 \<le> 1"
  by (simp add: check_user_connections_def example_database_def empty_database_def
      active_connections_def admit_a_def admit_b_def create_session_def log_action_def
      example_digest_def str_int_def str_opt_def digit_char_def)

section \<open>Properties of authentication\<close>

lemma find_not_None: "x \<in> set xs \<Longrightarrow> P x \<Longrightarrow> find P xs \<noteq> None"
  by (auto simp: find_None_iff)

lemma select_user_None:
  assumes "\<forall>r\<in>set (users db). u_username r = u \<longrightarrow> u_password r \<noteq> hp"
  shows "select_user db u hp = None"
  using assms by (auto simp: select_user_def find_None_iff)

lemma authenticate_user_failed:
  assumes "select_user db u (H p) = None"
  shows "authenticate_user H db ts u p = (db, Returned None)"
  using assms by (simp add: authenticate_user_def)

lemma handle_api_request_failed:
  assumes "authenticate_user_xtream H sdb u p = None"
  shows "handle_api_request H sdb
           [''action'' \<mapsto> [action], ''username'' \<mapsto> [u], ''password'' \<mapsto> [p]]
         = Inr negative_envelope"
  using assms by (simp add: handle_api_request_def param_def dispatch_action_def)

text \<open>
  Claim C2, as the code has it.  Neither \<^verbatim>\<open>authenticate_user\<close> looks at
  \<^verbatim>\<open>expires_at\<close>.  For an active subscriber whose \<^verbatim>\<open>expires_at\<close> is in the past and
  whose username and password are given correctly, the server's method returns a row,
  and in database.py the credential query finds the row and the method does not give the
  negative result.
\<close>

theorem authenticate_ignores_expiry:
  assumes "r \<in> set (users_xtream sdb)" and "x_username r = Some u"
    and "x_password r = Some (H' p)" and "x_is_active r = Some 1"
    and "x_expires_at r = Some e" and "e < now"
    and "q \<in> set (users db)" and "u_username q = v"
    and "u_password q = H w" and "u_is_active q = Some 1"
    and "u_expires_at q = Some e'" and "e' < now"
  shows "authenticate_user_xtream H' sdb u p \<noteq> None \<and>
         select_user db v (H w) \<noteq> None \<and>
         snd (authenticate_user H db ts v w) \<noteq> Returned None"
proof -
  have a: "authenticate_user_xtream H' sdb u p \<noteq> None"
    unfolding authenticate_user_xtream_def Let_def
    using assms(1-4) by (intro find_not_None [of r]) simp_all
  have b: "select_user db v (H w) \<noteq> None"
    unfolding select_user_def
    using assms(7-10) by (intro find_not_None [of q]) simp_all
  then obtain user where "select_user db v (H w) = Some user" by blast
  then have "snd (authenticate_user H db ts v w) = Blocked"
    by (simp add: authenticate_user_def log_action_def)
  with a b show ?thesis by simp
qed

theorem authenticate_ignores_expiry_witness:
  "x_expires_at expired_user = Some ''2024-01-01 00:00:00'' \<and>
   u_expires_at demo_row = Some ''2026-01-31 10:00:00'' \<and>
   authenticate_user_xtream example_digest example_server_db ''demo'' ''demo'' \<noteq> None \<and>
   select_user example_database ''demo'' (example_digest ''demo123'') \<noteq> None \<and>
   snd (authenticate_user example_digest example_database ''2026-11-06 12:00:00''
          ''demo'' ''demo123'') \<noteq> Returned None"
proof -
  have r1: "expired_user \<in> set (users_xtream example_server_db)"
    by (simp add: example_server_db_def)
  have r2: "x_username expired_user = Some ''demo''"
    and r3: "x_password expired_user = Some (example_digest ''demo'')"
    and r4: "x_is_active expired_user = Some 1"
    and r5: "x_expires_at expired_user = Some ''2024-01-01 00:00:00''"
    by (simp_all add: expired_user_def)
  have r6: "''2024-01-01 00:00:00'' < ''2026-11-06 12:00:00''"
    by code_simp
  have q1: "demo_row \<in> set (users example_database)"
    by (simp add: example_database_def empty_database_def demo_row_def)
  have q2: "u_username demo_row = ''demo''"
    and q3: "u_password demo_row = example_digest ''demo123''"
    and q4: "u_is_active demo_row = Some 1"
    and q5: "u_expires_at demo_row = Some ''2026-01-31 10:00:00''"
    by (simp_all add: demo_row_def)
  have q6: "''2026-01-31 10:00:00'' < ''2026-11-06 12:00:00''"
    by code_simp
  show ?thesis
    using r5 q5
      authenticate_ignores_expiry
        [where H' = example_digest and p = "''demo''" and H = example_digest
           and w = "''demo123''" and ts = "''2026-11-06 12:00:00''",
         OF r1 r2 r3 r4 r5 r6 q1 q2 q3 q4 q5 q6]
    by simp
qed

text \<open>
  Claim C2, as stated, fails.  The server's subscriber \<^verbatim>\<open>demo\<close> expired on 2024-01-01;
  on 2026-11-06 the correct password still yields the subscriber's row.  The database's
  subscriber \<^verbatim>\<open>demo\<close> expired on 2026-01-31; on 2026-11-06 the correct password makes
  \<^verbatim>\<open>authenticate_user\<close> record the login, and the call does not return the negative
  result.
\<close>

theorem expired_login_counterexample:
  "x_expires_at expired_user = Some ''2024-01-01 00:00:00'' \<and>
   ''2024-01-01 00:00:00'' < ''2026-11-06 12:00:00'' \<and>
   authenticate_user_xtream example_digest example_server_db ''demo'' ''demo''
     = Some expired_user \<and>
   u_expires_at demo_row = Some ''2026-01-31 10:00:00'' \<and>
   ''2026-01-31 10:00:00'' < ''2026-11-06 12:00:00'' \<and>
   authenticate_user example_digest example_database ''2026-11-06 12:00:00'' ''demo'' ''demo123''
     = (example_database
          \<lparr>users := [hd (users example_database),
                      demo_row\<lparr>u_last_login := Some ''2026-11-06 12:00:00''\<rparr>]\<rparr>,
        Blocked)"
proof -
  have "''2024-01-01 00:00:00'' < ''2026-11-06 12:00:00''"
    by code_simp
  moreover have "''2026-01-31 10:00:00'' < ''2026-11-06 12:00:00''"
    by code_simp
  moreover have
    "authenticate_user_xtream example_digest example_server_db ''demo'' ''demo''
       = Some expired_user"
    by (simp add: authenticate_user_xtream_def example_server_db_def expired_user_def
        example_digest_def)
  moreover have
    "authenticate_user example_digest example_database ''2026-11-06 12:00:00'' ''demo'' ''demo123''
       = (example_database
            \<lparr>users := [hd (users example_database),
                        demo_row\<lparr>u_last_login := Some ''2026-11-06 12:00:00''\<rparr>]\<rparr>,
          Blocked)"
    by (simp add: authenticate_user_def select_user_def example_database_def
        empty_database_def example_digest_def log_action_def demo_row_def)
  ultimately show ?thesis
    by (simp add: expired_user_def demo_row_def)
qed

text \<open>
  Claim C8.  A wrong password for a username that exists and any password for a username
  that does not exist end the same way: in database.py \<^verbatim>\<open>authenticate_user\<close> returns
  \<^verbatim>\<open>None\<close> and leaves the tables as they were (nothing is logged for a failure); in
  server.py \<^verbatim>\<open>authenticate_user\<close> returns \<^verbatim>\<open>None\<close> and the API answers with the negative
  envelope, whatever the action.
\<close>

theorem failed_logins_same_result:
  assumes "\<exists>r\<in>set (users db). u_username r = ua"
    and "\<forall>r\<in>set (users db). u_username r = ua \<longrightarrow> u_password r \<noteq> H pa"
    and "\<forall>r\<in>set (users db). u_username r \<noteq> ub"
    and "\<exists>r\<in>set (users_xtream sdb). x_username r = Some ua"
    and "\<forall>r\<in>set (users_xtream sdb). x_username r = Some ua \<longrightarrow> x_password r \<noteq> Some (H' pa)"
    and "\<forall>r\<in>set (users_xtream sdb). x_username r \<noteq> Some ub"
  shows "authenticate_user H db ts ua pa = (db, Returned None) \<and>
         authenticate_user H db ts ub pb = (db, Returned None) \<and>
         authenticate_user_xtream H' sdb ua pa = None \<and>
         authenticate_user_xtream H' sdb ub pb = None \<and>
         handle_api_request H' sdb
           [''action'' \<mapsto> [action], ''username'' \<mapsto> [ua], ''password'' \<mapsto> [pa]]
           = Inr negative_envelope \<and>
         handle_api_request H' sdb
           [''action'' \<mapsto> [action], ''username'' \<mapsto> [ub], ''password'' \<mapsto> [pb]]
           = Inr negative_envelope"
proof -
  have d1: "select_user db ua (H pa) = None"
    using assms(2) by (rule select_user_None)
  have d2: "select_user db ub (H pb) = None"
    using assms(3) by (auto simp: select_user_def find_None_iff)
  have s1: "authenticate_user_xtream H' sdb ua pa = None"
  proof -
    have "\<not> (sql_eq (x_username r) (Some ua) \<and> sql_eq (x_password r) (Some (H' pa)))"
      if "r \<in> set (users_xtream sdb)" for r
      using assms(5) that by (cases "x_username r"; cases "x_password r") auto
    then show ?thesis
      by (auto simp: authenticate_user_xtream_def find_None_iff)
  qed
  have s2: "authenticate_user_xtream H' sdb ub pb = None"
  proof -
    have "\<not> sql_eq (x_username r) (Some ub)" if "r \<in> set (users_xtream sdb)" for r
      using assms(6) that by (cases "x_username r") auto
    then show ?thesis
      by (auto simp: authenticate_user_xtream_def find_None_iff)
  qed
  show ?thesis
    using d1 d2 s1 s2 by (simp add: authenticate_user_failed handle_api_request_failed)
qed

theorem failed_logins_same_result_witness:
  "authenticate_user example_digest example_database ''2026-01-02 09:00:00'' ''demo'' ''wrongpass''
     = (example_database, Returned None) \<and>
   authenticate_user example_digest example_database ''2026-01-02 09:00:00'' ''nouser'' ''anything''
     = (example_database, Returned None) \<and>
   authenticate_user_xtream example_digest example_server_db ''demo'' ''wrongpass'' = None \<and>
   authenticate_user_xtream example_digest example_server_db ''nouser'' ''anything'' = None \<and>
   handle_api_request example_digest example_server_db
     [''action'' \<mapsto> [''get_live_streams''], ''username'' \<mapsto> [''demo''],
      ''password'' \<mapsto> [''wrongpass'']]
     = Inr negative_envelope \<and>
   handle_api_request example_digest example_server_db
     [''action'' \<mapsto> [''get_live_streams''], ''username'' \<mapsto> [''nouser''],
      ''password'' \<mapsto> [''anything'']]
     = Inr negative_envelope"
proof -
  have h1: "\<exists>r\<in>set (users example_database). u_username r = ''demo''"
    by (simp add: example_database_def empty_database_def)
  have h2: "\<forall>r\<in>set (users example_database).
              u_username r = ''demo'' \<longrightarrow> u_password r \<noteq> example_digest ''wrongpass''"
    by (simp add: example_database_def empty_database_def example_digest_def)
  have h3: "\<forall>r\<in>set (users example_database). u_username r \<noteq> ''nouser''"
    by (simp add: example_database_def empty_database_def)
  have h4: "\<exists>r\<in>set (users_xtream example_server_db). x_username r = Some ''demo''"
    by (simp add: example_server_db_def expired_user_def)
  have h5: "\<forall>r\<in>set (users_xtream example_server_db).
              x_username r = Some ''demo'' \<longrightarrow> x_password r \<noteq> Some (example_digest ''wrongpass'')"
    by (simp add: example_server_db_def expired_user_def example_digest_def)
  have h6: "\<forall>r\<in>set (users_xtream example_server_db). x_username r \<noteq> Some ''nouser''"
    by (simp add: example_server_db_def expired_user_def)
  show ?thesis
    using failed_logins_same_result
        [where H = example_digest and pa = "''wrongpass''" and H' = example_digest
           and ts = "''2026-01-02 09:00:00''" and pb = "''anything''"
           and action = "''get_live_streams''",
         OF h1 h2 h3 h4 h5 h6]
    by simp
qed

text \<open>
  The round trip of claim C10 in general: when the username and the API key are new,
  \<^verbatim>\<open>create_user\<close> inserts the row and then blocks in \<^verbatim>\<open>log_action\<close>; the credential
  query on the resulting table finds a row for the same password, and
  \<^verbatim>\<open>authenticate_user\<close> blocks in \<^verbatim>\<open>log_action\<close> as well.
\<close>

lemma create_user_inserts:
  assumes "username \<notin> set (map u_username (users db))"
    and "Some (H (username @ dt)) \<notin> set (map u_api_key (users db))"
  shows "snd (create_user H db dt ts username password email role cap) = Blocked"
    and "select_user (fst (create_user H db dt ts username password email role cap))
           username (H password) \<noteq> None"
    and "snd (authenticate_user H (fst (create_user H db dt ts username password email role cap))
           ts' username password) = Blocked"
proof -
  let ?db = "fst (create_user H db dt ts username password email role cap)"
  show "snd (create_user H db dt ts username password email role cap) = Blocked"
    using assms by (simp add: create_user_def Let_def log_action_def)
  have "\<exists>r\<in>set (users ?db). u_username r = username \<and> u_password r = H password
          \<and> u_is_active r = Some 1"
    using assms by (simp add: create_user_def Let_def log_action_def)
  then show found: "select_user ?db username (H password) \<noteq> None"
    by (auto simp: select_user_def find_None_iff)
  then obtain user where "select_user ?db username (H password) = Some user" by blast
  then show "snd (authenticate_user H ?db ts' username password) = Blocked"
    by (simp add: authenticate_user_def log_action_def)
qed

text \<open>
  Claim C10 on the input of the file's own self-test,
  \<^verbatim>\<open>create_user("test", "test123", "test@example.com")\<close> followed by
  \<^verbatim>\<open>authenticate_user("test", "test123")\<close>: the user is inserted, and neither call
  returns.  Both call \<^verbatim>\<open>self.log_action\<close> while they hold \<^verbatim>\<open>self.lock\<close>.
\<close>

theorem create_then_authenticate_blocks:
  "snd (create_user example_digest example_database ''2026-01-02 10:00:00.000001''
          ''2026-01-02 09:00:00'' ''test'' ''test123'' (Some ''test@example.com'') ''user'' 1)
     = Blocked \<and>
   map u_username (users (fst (create_user example_digest example_database
          ''2026-01-02 10:00:00.000001'' ''2026-01-02 09:00:00'' ''test'' ''test123''
          (Some ''test@example.com'') ''user'' 1)))
     = [''admin'', ''demo'', ''test''] \<and>
   snd (authenticate_user example_digest
          (fst (create_user example_digest example_database ''2026-01-02 10:00:00.000001''
             ''2026-01-02 09:00:00'' ''test'' ''test123'' (Some ''test@example.com'') ''user'' 1))
          ''2026-01-02 09:00:05'' ''test'' ''test123'')
     = Blocked"
  by (simp add: create_user_def authenticate_user_def select_user_def log_action_def
      example_database_def empty_database_def example_digest_def next_rowid_def)

section \<open>Properties of the API dispatch\<close>

lemma get_user_info_positive:
  assumes "authenticate_user_xtream H sdb u p \<noteq> None"
  shows "auth_field (get_user_info sdb u) = Some (JInt 1)"
proof -
  from assms obtain r where "authenticate_user_xtream H sdb u p = Some r" by blast
  then have "r \<in> set (users_xtream sdb)" and "sql_eq (x_username r) (Some u)"
    by (auto simp: authenticate_user_xtream_def find_Some_iff)
  then have "find (\<lambda>r. sql_eq (x_username r) (Some u)) (users_xtream sdb) \<noteq> None"
    by (rule find_not_None)
  then show ?thesis
    by (auto simp: get_user_info_def auth_field_def)
qed

text \<open>
  Claim C3, as the code has it.  The dispatch ends in an \<^verbatim>\<open>else\<close> branch that answers
  with the user info, so an action that is none of the four known ones is treated like
  an absent action: the response is the negative envelope when authentication fails and
  otherwise the result of \<^verbatim>\<open>get_user_info\<close>, whose \<^verbatim>\<open>auth\<close> field is 1.
\<close>

theorem unknown_action_is_user_info:
  assumes "action \<notin> known_actions"
  shows "handle_api_request H sdb
           [''action'' \<mapsto> [action], ''username'' \<mapsto> [u], ''password'' \<mapsto> [p]]
         = (case authenticate_user_xtream H sdb u p of
              None \<Rightarrow> Inr negative_envelope
            | Some user \<Rightarrow> Inr (get_user_info sdb u))
       \<and> handle_api_request H sdb
           [''action'' \<mapsto> [action], ''username'' \<mapsto> [u], ''password'' \<mapsto> [p]]
         = handle_api_request H sdb [''username'' \<mapsto> [u], ''password'' \<mapsto> [p]]
       \<and> (authenticate_user_xtream H sdb u p \<noteq> None \<longrightarrow>
            auth_field (get_user_info sdb u) = Some (JInt 1))"
proof -
  from assms have
    "action \<noteq> ''get_live_categories''" "action \<noteq> ''get_live_streams''"
    "action \<noteq> ''get_vod_categories''" "action \<noteq> ''get_vod_streams''"
    by (auto simp: known_actions_def)
  then have
    "handle_api_request H sdb
       [''action'' \<mapsto> [action], ''username'' \<mapsto> [u], ''password'' \<mapsto> [p]]
     = (case authenticate_user_xtream H sdb u p of
          None \<Rightarrow> Inr negative_envelope
        | Some user \<Rightarrow> Inr (get_user_info sdb u))"
    by (simp add: handle_api_request_def param_def dispatch_action_def split: option.splits)
  moreover have
    "handle_api_request H sdb [''username'' \<mapsto> [u], ''password'' \<mapsto> [p]]
     = (case authenticate_user_xtream H sdb u p of
          None \<Rightarrow> Inr negative_envelope
        | Some user \<Rightarrow> Inr (get_user_info sdb u))"
    by (simp add: handle_api_request_def param_def dispatch_action_def split: option.splits)
  ultimately show ?thesis
    using get_user_info_positive [of H sdb u p] by simp
qed

theorem unknown_action_is_user_info_witness:
  "''get_account'' \<notin> known_actions \<and>
   authenticate_user_xtream example_digest example_server_db ''demo'' ''demo'' \<noteq> None \<and>
   handle_api_request example_digest example_server_db
     [''action'' \<mapsto> [''get_account''], ''username'' \<mapsto> [''demo''], ''password'' \<mapsto> [''demo'']]
     = Inr (get_user_info example_server_db ''demo'') \<and>
   handle_api_request example_digest example_server_db
     [''action'' \<mapsto> [''get_account''], ''username'' \<mapsto> [''demo''], ''password'' \<mapsto> [''demo'']]
     = handle_api_request example_digest example_server_db
         [''username'' \<mapsto> [''demo''], ''password'' \<mapsto> [''demo'']] \<and>
   auth_field (get_user_info example_server_db ''demo'') = Some (JInt 1)"
proof -
  have h: "''get_account'' \<notin> known_actions"
    by (simp add: known_actions_def)
  have a: "authenticate_user_xtream example_digest example_server_db ''demo'' ''demo''
             = Some expired_user"
    by (simp add: authenticate_user_xtream_def example_server_db_def expired_user_def
        example_digest_def)
  have b: "authenticate_user_xtream example_digest example_server_db ''demo'' ''demo'' \<noteq> None"
    using a by simp
  note t = unknown_action_is_user_info
    [OF h, of example_digest example_server_db "''demo''" "''demo''"]
  from t a have e1:
    "handle_api_request example_digest example_server_db
       [''action'' \<mapsto> [''get_account''], ''username'' \<mapsto> [''demo''],
        ''password'' \<mapsto> [''demo'']]
     = Inr (get_user_info example_server_db ''demo'')"
    by simp
  from t have e2:
    "handle_api_request example_digest example_server_db
       [''action'' \<mapsto> [''get_account''], ''username'' \<mapsto> [''demo''],
        ''password'' \<mapsto> [''demo'']]
     = handle_api_request example_digest example_server_db
         [''username'' \<mapsto> [''demo''], ''password'' \<mapsto> [''demo'']]"
    by (rule conjunct1 [OF conjunct2])
  from t b have e3: "auth_field (get_user_info example_server_db ''demo'') = Some (JInt 1)"
    by blast
  from h b e1 e2 e3 show ?thesis
    by (intro conjI)
qed

text \<open>
  Claim C3, as stated, fails.  A request with the unknown action \<^verbatim>\<open>get_account\<close> and the
  right credentials gets the positive user info, with \<^verbatim>\<open>auth\<close> 1.
\<close>

theorem unknown_action_counterexample:
  "''get_account'' \<notin> known_actions \<and>
   handle_api_request example_digest example_server_db
     [''action'' \<mapsto> [''get_account''], ''username'' \<mapsto> [''demo''], ''password'' \<mapsto> [''demo'']]
   = Inr (JDict [(''user_info'', JDict
            [(''username'', JStr ''demo''),
             (''password'', JStr ''********''),
             (''message'', JStr ''Authorized''),
             (''auth'', JInt 1),
             (''status'', JStr ''Active''),
             (''exp_date'', JStr ''2024-01-01 00:00:00''),
             (''is_trial'', JInt 0),
             (''active_cons'', JInt 0),
             (''created_at'', JStr ''2023-01-01 00:00:00''),
             (''max_connections'', JInt 1),
             (''allowed_output_formats'', JList [JStr ''m3u8'', JStr ''ts'', JStr ''rtmp''])])])"
  by (simp add: known_actions_def handle_api_request_def param_def dispatch_action_def
      authenticate_user_xtream_def get_user_info_def example_server_db_def expired_user_def
      example_digest_def json_text_def json_int_def)

section \<open>Properties of the playlist\<close>

lemma playlist_step_eq:
  "playlist_step fmt (acc, cur) s =
     (acc @ (if ls_category_name s \<noteq> cur then group_marker (ls_category_name s) else [])
          @ extinf_line s @ url_line fmt s,
      ls_category_name s)"
  by (simp add: playlist_step_def)

lemma playlist_body_Cons:
  "playlist_body fmt cur (s # ss) =
     (if ls_category_name s \<noteq> cur then group_marker (ls_category_name s) else [])
       @ extinf_line s @ url_line fmt s @ playlist_body fmt (ls_category_name s) ss"
  by (simp add: group_marker_def extinf_line_def url_line_def tvg_id_def dq_def nl_def)

lemma foldl_playlist_step:
  "fst (foldl (playlist_step fmt) (acc, cur) ss) = acc @ playlist_body fmt cur ss"
proof (induction ss arbitrary: acc cur)
  case Nil
  then show ?case by simp
next
  case (Cons s ss)
  show ?case
    unfolding foldl_Cons playlist_step_eq Cons.IH playlist_body_Cons by simp
qed

text \<open>
  The playlist is the three header lines and a blank line, followed by
  \<open>playlist_body\<close> for the rows of the query, the previous category being the empty
  string at the start.
\<close>

lemma generate_m3u_playlist_body:
  "generate_m3u_playlist db generated uid fmt =
     ''#EXTM3U\<newline># Generated: '' @ generated @ ''\<newline># User ID: '' @ str_int uid
       @ ''\<newline>\<newline>'' @ playlist_body fmt (Some []) (playlist_query db uid)"
  by (simp add: generate_m3u_playlist_def foldl_playlist_step m3u_header_def nl_def)

lemma playlist_query_sorted:
  "sorted (map (\<lambda>s. (joined_category_name db s, stream_name s)) (playlist_query db uid))"
  by (simp add: playlist_query_def)

lemma sort_key_three:
  assumes m: "mset xs = {#x, y, z#}"
    and xy: "f x < f y" and yz: "f y < f z"
  shows "sort_key f xs = [x, y, z]"
proof (rule properties_for_sort_key)
  show "mset [x, y, z] = mset xs"
    using m by simp
  show "sorted (map f [x, y, z])"
    using xy yz by (auto intro: less_imp_le less_trans)
  fix k assume k: "k \<in> set [x, y, z]"
  have d: "f x \<noteq> f y" "f y \<noteq> f z" "f x \<noteq> f z"
    using xy yz by auto
  have fk: "filter (\<lambda>e. f k = f e) [x, y, z] = [k]"
    using k d by auto
  have "mset (filter (\<lambda>e. f k = f e) xs) = filter_mset (\<lambda>e. f k = f e) (mset xs)"
    by (rule mset_filter)
  also have "\<dots> = filter_mset (\<lambda>e. f k = f e) (mset [x, y, z])"
    using m by simp
  also have "\<dots> = mset (filter (\<lambda>e. f k = f e) [x, y, z])"
    by (rule mset_filter [symmetric])
  also have "\<dots> = {#k#}"
    unfolding fk by simp
  finally have "filter (\<lambda>e. f k = f e) xs = [k]"
    by (simp only: mset_single_iff)
  with fk show "filter (\<lambda>e. f k = f e) [x, y, z] = filter (\<lambda>e. f k = f e) xs"
    by simp
qed

text \<open>
  Claim C6, as the code has it.  The rows are sorted by the name of the joined
  \<^verbatim>\<open>categories\<close> row, but the markers and the \<^verbatim>\<open>group-title\<close> fields print the
  \<^verbatim>\<open>category_name\<close> stored on the stream row, and the loop starts from the empty
  string.  Let a subscriber's active streams be x and y in category catA and z in catB,
  whatever their order in the table, where the name stored on each stream is the name of
  its category row, catA is not empty and comes before catB, and the name of x comes
  before the name of y in byte order.  Then the playlist is, character for character,
  the header, one group marker for catA, the entries of x and y, one group marker for
  catB and the entry of z.  For every catalog the rows come sorted by (joined category
  name, stream name) and the text after the header is \<open>playlist_body\<close>: the marker
  lines precede an entry exactly when its stored category name differs from that of the
  previous entry (from the empty string for the first entry).
\<close>

theorem playlist_three_streams:
  assumes owned: "mset (filter (\<lambda>s. ls_user_id s = Some uid \<and> ls_is_active s = Some 1)
                         (live_streams db)) = {#x, y, z#}"
    and cx: "ls_category_name x = Some catA" and jx: "joined_category_name db x = Some catA"
    and cy: "ls_category_name y = Some catA" and jy: "joined_category_name db y = Some catA"
    and cz: "ls_category_name z = Some catB" and jz: "joined_category_name db z = Some catB"
    and ne: "catA \<noteq> []" and ab: "catA < catB" and xy: "stream_name x < stream_name y"
  shows "generate_m3u_playlist db generated uid fmt =
           ''#EXTM3U\<newline># Generated: '' @ generated @ ''\<newline># User ID: '' @ str_int uid
             @ ''\<newline>\<newline>'' @
           ''\<newline>#EXTINF:-1 group-title=\"'' @ catA @ ''\",'' @ catA @ ''\<newline>'' @
           ''#EXTVLCOPT:network-caching=1000\<newline>'' @
           ''#EXTINF:-1 tvg-id=\"'' @
             (case epg_channel_id x of
                None \<Rightarrow> stream_name x
              | Some e \<Rightarrow> if e = [] then stream_name x else e) @
           ''\" tvg-name=\"'' @ stream_name x @
           ''\" tvg-logo=\"'' @ str_opt (stream_icon x) @
           ''\" group-title=\"'' @ catA @ ''\",'' @ stream_name x @ ''\<newline>'' @
           (if fmt = ''ts'' then str_opt (proxy_url x) else stream_url x) @ ''\<newline>'' @
           ''#EXTINF:-1 tvg-id=\"'' @
             (case epg_channel_id y of
                None \<Rightarrow> stream_name y
              | Some e \<Rightarrow> if e = [] then stream_name y else e) @
           ''\" tvg-name=\"'' @ stream_name y @
           ''\" tvg-logo=\"'' @ str_opt (stream_icon y) @
           ''\" group-title=\"'' @ catA @ ''\",'' @ stream_name y @ ''\<newline>'' @
           (if fmt = ''ts'' then str_opt (proxy_url y) else stream_url y) @ ''\<newline>'' @
           ''\<newline>#EXTINF:-1 group-title=\"'' @ catB @ ''\",'' @ catB @ ''\<newline>'' @
           ''#EXTVLCOPT:network-caching=1000\<newline>'' @
           ''#EXTINF:-1 tvg-id=\"'' @
             (case epg_channel_id z of
                None \<Rightarrow> stream_name z
              | Some e \<Rightarrow> if e = [] then stream_name z else e) @
           ''\" tvg-name=\"'' @ stream_name z @
           ''\" tvg-logo=\"'' @ str_opt (stream_icon z) @
           ''\" group-title=\"'' @ catB @ ''\",'' @ stream_name z @ ''\<newline>'' @
           (if fmt = ''ts'' then str_opt (proxy_url z) else stream_url z) @ ''\<newline>''
         \<and> playlist_query db uid = [x, y, z]
         \<and> sorted (map (\<lambda>s. (joined_category_name db s, stream_name s)) (playlist_query db uid))
         \<and> generate_m3u_playlist db generated uid fmt =
             ''#EXTM3U\<newline># Generated: '' @ generated @ ''\<newline># User ID: '' @ str_int uid
               @ ''\<newline>\<newline>'' @ playlist_body fmt (Some []) (playlist_query db uid)"
proof -
  let ?f = "\<lambda>s. (joined_category_name db s, stream_name s)"
  have "?f x < ?f y"
    using jx jy xy by (simp add: less_prod_def)
  moreover have "?f y < ?f z"
    using jy jz ab by (simp add: less_prod_def)
  ultimately have q: "playlist_query db uid = [x, y, z]"
    unfolding playlist_query_def using owned by (intro sort_key_three)
  have "catA \<noteq> catB"
    using ab by auto
  with q cx cy cz ne show ?thesis
    using playlist_query_sorted [of db uid]
    by (simp add: generate_m3u_playlist_body str_opt_def)
qed

theorem playlist_three_streams_witness:
  "generate_m3u_playlist playlist_database ''2026-01-02 09:00:00'' 7 ''ts'' =
     ''#EXTM3U\<newline>'' @
     ''# Generated: 2026-01-02 09:00:00\<newline>'' @
     ''# User ID: 7\<newline>'' @
     ''\<newline>'' @
     ''\<newline>'' @
     ''#EXTINF:-1 group-title=\"catA\",catA\<newline>'' @
     ''#EXTVLCOPT:network-caching=1000\<newline>'' @
     ''#EXTINF:-1 tvg-id=\"x.tv\" tvg-name=\"X\" tvg-logo=\"http://img.example/x.png\" group-title=\"catA\",X\<newline>'' @
     ''http://localhost/live/0a1b2c3d\<newline>'' @
     ''#EXTINF:-1 tvg-id=\"Y\" tvg-name=\"Y\" tvg-logo=\"None\" group-title=\"catA\",Y\<newline>'' @
     ''http://localhost/live/4e5f6a7b\<newline>'' @
     ''\<newline>'' @
     ''#EXTINF:-1 group-title=\"catB\",catB\<newline>'' @
     ''#EXTVLCOPT:network-caching=1000\<newline>'' @
     ''#EXTINF:-1 tvg-id=\"z.tv\" tvg-name=\"Z\" tvg-logo=\"http://img.example/z.png\" group-title=\"catB\",Z\<newline>'' @
     ''http://localhost/live/8c9d0e1f\<newline>''
   \<and> playlist_query playlist_database 7 = [stream_x, stream_y, stream_z]"
proof -
  have owned: "mset (filter (\<lambda>s. ls_user_id s = Some 7 \<and> ls_is_active s = Some 1)
                  (live_streams playlist_database)) = {#stream_x, stream_y, stream_z#}"
    by (simp add: playlist_database_def empty_database_def stream_x_def stream_y_def stream_z_def)
  have cx: "ls_category_name stream_x = Some ''catA''"
    and cy: "ls_category_name stream_y = Some ''catA''"
    and cz: "ls_category_name stream_z = Some ''catB''"
    by (simp_all add: stream_x_def stream_y_def stream_z_def)
  have jx: "joined_category_name playlist_database stream_x = Some ''catA''"
    and jy: "joined_category_name playlist_database stream_y = Some ''catA''"
    and jz: "joined_category_name playlist_database stream_z = Some ''catB''"
    by (simp_all add: joined_category_name_def playlist_database_def empty_database_def
        stream_x_def stream_y_def stream_z_def)
  have ne: "''catA'' \<noteq> []" by simp
  have ab: "''catA'' < ''catB''" by code_simp
  have "''X'' < ''Y''" by code_simp
  then have xy: "stream_name stream_x < stream_name stream_y"
    by (simp add: stream_x_def stream_y_def)
  have seven: "str_int 7 = ''7''"
    by code_simp
  from playlist_three_streams [OF owned cx jx cy jy cz jz ne ab xy,
      of "''2026-01-02 09:00:00''" "''ts''"]
  show ?thesis
    by (simp add: seven str_opt_def stream_x_def stream_y_def stream_z_def)
qed

text \<open>
  Claim C6, as stated, fails, whichever of the two category names the claim means.
  In the first catalog the stream rows store catA, catA and catB, but the category row of
  Y is called catC: the rows sort as X, Z, Y and the playlist has two markers for catA,
  with Y behind the entry of Z.  In the second catalog the category rows are catA, catA
  and catB, but the stream rows store no name: the rows sort as X, Y, Z and the playlist
  has a single marker, for \<^verbatim>\<open>None\<close>, and none for catA or catB.
\<close>

theorem playlist_marker_counterexample:
  "playlist_query renamed_database 7 = [stream_x, stream_z, stream_y\<lparr>ls_category_id := Some 3\<rparr>]
   \<and> generate_m3u_playlist renamed_database ''2026-01-02 09:00:00'' 7 ''ts'' =
     ''#EXTM3U\<newline>'' @
     ''# Generated: 2026-01-02 09:00:00\<newline>'' @
     ''# User ID: 7\<newline>'' @
     ''\<newline>'' @
     ''\<newline>'' @
     ''#EXTINF:-1 group-title=\"catA\",catA\<newline>'' @
     ''#EXTVLCOPT:network-caching=1000\<newline>'' @
     ''#EXTINF:-1 tvg-id=\"x.tv\" tvg-name=\"X\" tvg-logo=\"http://img.example/x.png\" group-title=\"catA\",X\<newline>'' @
     ''http://localhost/live/0a1b2c3d\<newline>'' @
     ''\<newline>'' @
     ''#EXTINF:-1 group-title=\"catB\",catB\<newline>'' @
     ''#EXTVLCOPT:network-caching=1000\<newline>'' @
     ''#EXTINF:-1 tvg-id=\"z.tv\" tvg-name=\"Z\" tvg-logo=\"http://img.example/z.png\" group-title=\"catB\",Z\<newline>'' @
     ''http://localhost/live/8c9d0e1f\<newline>'' @
     ''\<newline>'' @
     ''#EXTINF:-1 group-title=\"catA\",catA\<newline>'' @
     ''#EXTVLCOPT:network-caching=1000\<newline>'' @
     ''#EXTINF:-1 tvg-id=\"Y\" tvg-name=\"Y\" tvg-logo=\"None\" group-title=\"catA\",Y\<newline>'' @
     ''http://localhost/live/4e5f6a7b\<newline>''
   \<and> map (joined_category_name unnamed_database) (playlist_query unnamed_database 7)
       = [Some ''catA'', Some ''catA'', Some ''catB'']
   \<and> generate_m3u_playlist unnamed_database ''2026-01-02 09:00:00'' 7 ''ts'' =
     ''#EXTM3U\<newline>'' @
     ''# Generated: 2026-01-02 09:00:00\<newline>'' @
     ''# User ID: 7\<newline>'' @
     ''\<newline>'' @
     ''\<newline>'' @
     ''#EXTINF:-1 group-title=\"None\",None\<newline>'' @
     ''#EXTVLCOPT:network-caching=1000\<newline>'' @
     ''#EXTINF:-1 tvg-id=\"x.tv\" tvg-name=\"X\" tvg-logo=\"http://img.example/x.png\" group-title=\"None\",X\<newline>'' @
     ''http://localhost/live/0a1b2c3d\<newline>'' @
     ''#EXTINF:-1 tvg-id=\"Y\" tvg-name=\"Y\" tvg-logo=\"None\" group-title=\"None\",Y\<newline>'' @
     ''http://localhost/live/4e5f6a7b\<newline>'' @
     ''#EXTINF:-1 tvg-id=\"z.tv\" tvg-name=\"Z\" tvg-logo=\"http://img.example/z.png\" group-title=\"None\",Z\<newline>'' @
     ''http://localhost/live/8c9d0e1f\<newline>''"
proof -
  have ab: "''catA'' < ''catB''" and bc: "''catB'' < ''catC''" and xy: "''X'' < ''Y''"
    by code_simp+
  have seven: "str_int 7 = ''7''"
    by code_simp
  let ?y = "stream_y\<lparr>ls_category_id := Some 3\<rparr>"
  let ?f = "\<lambda>s. (joined_category_name renamed_database s, stream_name s)"
  have "mset (filter (\<lambda>s. ls_user_id s = Some 7 \<and> ls_is_active s = Some 1)
          (live_streams renamed_database)) = {#stream_x, stream_z, ?y#}"
    by (simp add: renamed_database_def empty_database_def stream_x_def stream_y_def stream_z_def)
  moreover have "?f stream_x < ?f stream_z"
    using ab
    by (simp add: less_prod_def joined_category_name_def renamed_database_def
        empty_database_def stream_x_def stream_z_def)
  moreover have "?f stream_z < ?f ?y"
    using bc
    by (simp add: less_prod_def joined_category_name_def renamed_database_def
        empty_database_def stream_y_def stream_z_def)
  ultimately have q1: "playlist_query renamed_database 7 = [stream_x, stream_z, ?y]"
    unfolding playlist_query_def by (intro sort_key_three)
  let ?x' = "stream_x\<lparr>ls_category_name := None\<rparr>"
  let ?y' = "stream_y\<lparr>ls_category_name := None\<rparr>"
  let ?z' = "stream_z\<lparr>ls_category_name := None\<rparr>"
  let ?g = "\<lambda>s. (joined_category_name unnamed_database s, stream_name s)"
  have "mset (filter (\<lambda>s. ls_user_id s = Some 7 \<and> ls_is_active s = Some 1)
          (live_streams unnamed_database)) = {#?x', ?y', ?z'#}"
    by (simp add: unnamed_database_def empty_database_def stream_x_def stream_y_def stream_z_def)
  moreover have "?g ?x' < ?g ?y'"
    using xy
    by (simp add: less_prod_def joined_category_name_def unnamed_database_def
        empty_database_def stream_x_def stream_y_def)
  moreover have "?g ?y' < ?g ?z'"
    using ab
    by (simp add: less_prod_def joined_category_name_def unnamed_database_def
        empty_database_def stream_y_def stream_z_def)
  ultimately have q2: "playlist_query unnamed_database 7 = [?x', ?y', ?z']"
    unfolding playlist_query_def by (intro sort_key_three)
  have j2: "map (joined_category_name unnamed_database) [?x', ?y', ?z']
              = [Some ''catA'', Some ''catA'', Some ''catB'']"
    by (simp add: joined_category_name_def unnamed_database_def empty_database_def
        stream_x_def stream_y_def stream_z_def)
  have t1: "fst (foldl (playlist_step ''ts'') (m3u_header ''2026-01-02 09:00:00'' 7, Some [])
              [stream_x, stream_z, ?y]) =
     ''#EXTM3U\<newline>'' @
     ''# Generated: 2026-01-02 09:00:00\<newline>'' @
     ''# User ID: 7\<newline>'' @
     ''\<newline>'' @
     ''\<newline>'' @
     ''#EXTINF:-1 group-title=\"catA\",catA\<newline>'' @
     ''#EXTVLCOPT:network-caching=1000\<newline>'' @
     ''#EXTINF:-1 tvg-id=\"x.tv\" tvg-name=\"X\" tvg-logo=\"http://img.example/x.png\" group-title=\"catA\",X\<newline>'' @
     ''http://localhost/live/0a1b2c3d\<newline>'' @
     ''\<newline>'' @
     ''#EXTINF:-1 group-title=\"catB\",catB\<newline>'' @
     ''#EXTVLCOPT:network-caching=1000\<newline>'' @
     ''#EXTINF:-1 tvg-id=\"z.tv\" tvg-name=\"Z\" tvg-logo=\"http://img.example/z.png\" group-title=\"catB\",Z\<newline>'' @
     ''http://localhost/live/8c9d0e1f\<newline>'' @
     ''\<newline>'' @
     ''#EXTINF:-1 group-title=\"catA\",catA\<newline>'' @
     ''#EXTVLCOPT:network-caching=1000\<newline>'' @
     ''#EXTINF:-1 tvg-id=\"Y\" tvg-name=\"Y\" tvg-logo=\"None\" group-title=\"catA\",Y\<newline>'' @
     ''http://localhost/live/4e5f6a7b\<newline>''"
    by (simp add: playlist_step_def m3u_header_def group_marker_def extinf_line_def
        url_line_def tvg_id_def str_opt_def seven dq_def nl_def
        stream_x_def stream_y_def stream_z_def)
  have t2: "fst (foldl (playlist_step ''ts'') (m3u_header ''2026-01-02 09:00:00'' 7, Some [])
              [?x', ?y', ?z']) =
     ''#EXTM3U\<newline>'' @
     ''# Generated: 2026-01-02 09:00:00\<newline>'' @
     ''# User ID: 7\<newline>'' @
     ''\<newline>'' @
     ''\<newline>'' @
     ''#EXTINF:-1 group-title=\"None\",None\<newline>'' @
     ''#EXTVLCOPT:network-caching=1000\<newline>'' @
     ''#EXTINF:-1 tvg-id=\"x.tv\" tvg-name=\"X\" tvg-logo=\"http://img.example/x.png\" group-title=\"None\",X\<newline>'' @
     ''http://localhost/live/0a1b2c3d\<newline>'' @
     ''#EXTINF:-1 tvg-id=\"Y\" tvg-name=\"Y\" tvg-logo=\"None\" group-title=\"None\",Y\<newline>'' @
     ''http://localhost/live/4e5f6a7b\<newline>'' @
     ''#EXTINF:-1 tvg-id=\"z.tv\" tvg-name=\"Z\" tvg-logo=\"http://img.example/z.png\" group-title=\"None\",Z\<newline>'' @
     ''http://localhost/live/8c9d0e1f\<newline>''"
    by (simp add: playlist_step_def m3u_header_def group_marker_def extinf_line_def
        url_line_def tvg_id_def str_opt_def seven dq_def nl_def
        stream_x_def stream_y_def stream_z_def)
  show ?thesis
    unfolding generate_m3u_playlist_def q1 q2 j2 t1 t2 by simp
qed

text \<open>
  Claim C7, as the code has it.  Nothing is escaped and nothing is rejected: the fields
  are copied into the entry line as they are.  The line has the eight double quotes of
  its template and its one final newline, plus every double quote and every newline of
  the fields it prints (the stream name is printed twice).
\<close>

theorem extinf_line_counts:
  "count_list (extinf_line s) dq =
     8 + count_list (tvg_id s) dq + 2 * count_list (stream_name s) dq
       + count_list (str_opt (stream_icon s)) dq + count_list (str_opt (ls_category_name s)) dq
   \<and> count_list (extinf_line s) nl =
     1 + count_list (tvg_id s) nl + 2 * count_list (stream_name s) nl
       + count_list (str_opt (stream_icon s)) nl + count_list (str_opt (ls_category_name s)) nl"
  by (simp add: extinf_line_def dq_def nl_def)

text \<open>
  Claim C7, as stated, fails.  For the stream named \<^verbatim>\<open>News "24"\<close> the playlist is
  generated, and its entry line holds the name's quotes and the icon's line break
  unchanged: twelve double quotes instead of eight, two newlines instead of one.
\<close>

theorem unescaped_quote_counterexample:
  "count_list (stream_name quoted_stream) dq = 2 \<and>
   count_list (str_opt (stream_icon quoted_stream)) nl = 1 \<and>
   generate_m3u_playlist quoted_database ''2026-01-02 09:00:00'' 7 ''ts'' =
     m3u_header ''2026-01-02 09:00:00'' 7 @ group_marker (Some ''News'') @
     extinf_line quoted_stream @ url_line ''ts'' quoted_stream \<and>
   extinf_line quoted_stream =
     ''#EXTINF:-1 tvg-id='' @ [dq] @ ''news24'' @ [dq] @
     '' tvg-name='' @ [dq] @ ''News '' @ [dq] @ ''24'' @ [dq] @ [dq] @
     '' tvg-logo='' @ [dq] @ ''logo'' @ [nl] @ ''.png'' @ [dq] @
     '' group-title='' @ [dq] @ ''News'' @ [dq] @
     '',News '' @ [dq] @ ''24'' @ [dq] @ [nl] \<and>
   count_list (extinf_line quoted_stream) dq = 12 \<and>
   count_list (extinf_line quoted_stream) nl = 2"
proof -
  have "playlist_query quoted_database 7 = [quoted_stream]"
    by (simp add: playlist_query_def quoted_database_def empty_database_def quoted_stream_def)
  then have
    "generate_m3u_playlist quoted_database ''2026-01-02 09:00:00'' 7 ''ts'' =
       m3u_header ''2026-01-02 09:00:00'' 7 @ group_marker (Some ''News'') @
       extinf_line quoted_stream @ url_line ''ts'' quoted_stream"
    by (simp add: generate_m3u_playlist_def playlist_step_def quoted_stream_def)
  then show ?thesis
    by (simp add: extinf_line_def tvg_id_def str_opt_def quoted_stream_def dq_def nl_def)
qed

end
